theory Spec2Isabelle
  imports Complex_Main "HOL-Library.Word"
begin

section \<open>Health and defeat tracker (enemy\_damage.js)\<close>

text \<open>
  The module keeps a constant configuration object \<open>enemyHealthConfig\<close> and a mutable
  state object \<open>enemyState\<close>. Every number it stores is an integer (1000, 29 and sums
  and differences of them), so JavaScript numbers are modelled as \<open>int\<close>.
  The state record is called \<open>enemyHealthState\<close> here because the locomotion module
  has a state object of the same name. Of the DOM only \<open>healthBarContainer\<close> is kept
  (\<open>True\<close>: the element reference is held, \<open>False\<close>: it is \<open>null\<close>), because
  \<open>showDamageNumber\<close> dereferences it without a check.
\<close>

definition maxHealth :: int where
  "maxHealth = 1000"

definition damagePerLineBase :: int where
  "damagePerLineBase = 29"

record enemyHealthState =
  currentHealth :: int
  totalDamageDealt :: int
  linesCompleted :: int
  lineCount :: int
  isDefeated :: bool
  healthBarContainer :: bool

text \<open>The literal the module starts with, before any call.\<close>

definition initialHealthState :: enemyHealthState where
  "initialHealthState =
     \<lparr>currentHealth = 1000, totalDamageDealt = 0, linesCompleted = 0, lineCount = 35,
      isDefeated = False, healthBarContainer = False\<rparr>"

datatype jsError = TypeError

text \<open>
  The object \<open>applyDamage\<close> returns: \<open>{damage: 0}\<close> on the two rejection paths (the other
  properties are absent), all four properties otherwise.
\<close>

datatype damageInfo =
  DamageInfo (damage: int) (remainingHealth: "int option") (isFinalLine: "bool option")
    (isDefeatedInfo: "bool option")

text \<open>\<open>initEnemyDamage\<close>; the argument says whether the container element is in the document.\<close>

definition initEnemyDamage :: "bool \<Rightarrow> enemyHealthState \<Rightarrow> enemyHealthState" where
  "initEnemyDamage containerInDocument s =
     s\<lparr>currentHealth := maxHealth, totalDamageDealt := 0, linesCompleted := 0,
       isDefeated := False, healthBarContainer := containerInDocument\<rparr>"

text \<open>
  \<open>applyDamage(lineText, isSuccessful, currentLyricText)\<close>. The two text arguments are
  never read by the source and are left out. The state is updated first;
  \<open>showDamageNumber\<close> then reads \<open>healthBarContainer.getBoundingClientRect()\<close>, which
  throws when the reference is \<open>null\<close>, so the call returns the updated state together
  with either the exception or the result object.
\<close>

definition applyDamage ::
  "bool \<Rightarrow> enemyHealthState \<Rightarrow> enemyHealthState \<times> (jsError + damageInfo)" where
  "applyDamage isSuccessful s =
     (if isDefeated s then (s, Inr (DamageInfo 0 None None None))
      else if \<not> isSuccessful then (s, Inr (DamageInfo 0 None None None))
      else
        let s1 = s\<lparr>linesCompleted := linesCompleted s + 1\<rparr>;
            final = (linesCompleted s1 \<ge> 35);
            damageAmount =
              (if final then max damagePerLineBase (currentHealth s1) else damagePerLineBase);
            s2 = s1\<lparr>currentHealth := max 0 (currentHealth s1 - damageAmount),
                    totalDamageDealt := totalDamageDealt s1 + damageAmount\<rparr>;
            s3 = (if currentHealth s2 \<le> 0 then s2\<lparr>isDefeated := True, currentHealth := 0\<rparr>
                  else s2)
        in if healthBarContainer s3
           then (s3, Inr (DamageInfo damageAmount (Some (currentHealth s3)) (Some final)
                           (Some (isDefeated s3))))
           else (s3, Inl TypeError))"

text \<open>
  A JavaScript string is a sequence of UTF-16 code units, so lyric text is a list of
  16-bit words.
\<close>

type_synonym jsString = "16 word list"

text \<open>
  Track data as \<open>setCurrentTrack\<close> reads it: the argument may be \<open>null\<close>, its \<open>lyrics\<close>
  property may be missing, and a lyric's \<open>text\<close> may be missing.
\<close>

record lyric =
  lyric_text :: "jsString option"

record lrcData =
  lyrics :: "lyric list option"

text \<open>
  What \<open>String.prototype.trim\<close> strips from both ends: the white space and the line
  terminators of ECMAScript. These are tab, LF, VT, FF, CR and space, the no-break space
  U+00A0, the Ogham space mark U+1680, the spaces U+2000 to U+200A, the line and
  paragraph separators U+2028 and U+2029, the narrow no-break space U+202F, the medium
  mathematical space U+205F, the ideographic space U+3000 and the byte order mark
  U+FEFF. Each of them is one code unit, and no surrogate is among them, so the test is
  made code unit by code unit.
\<close>

definition isWhiteSpace :: "16 word \<Rightarrow> bool" where
  "isWhiteSpace c =
     (c \<in> {0x0009, 0x000A, 0x000B, 0x000C, 0x000D, 0x0020, 0x00A0, 0x1680, 0x2028, 0x2029,
            0x202F, 0x205F, 0x3000, 0xFEFF} \<or>
      (0x2000 \<le> c \<and> c \<le> 0x200A))"

definition trim :: "jsString \<Rightarrow> jsString" where
  "trim t = rev (dropWhile isWhiteSpace (rev (dropWhile isWhiteSpace t)))"

text \<open>The loop condition \<open>lyric.text && lyric.text.trim() !== ""\<close>.\<close>

definition hasTextContent :: "lyric \<Rightarrow> bool" where
  "hasTextContent l =
     (case lyric_text l of None \<Rightarrow> False | Some t \<Rightarrow> t \<noteq> [] \<and> trim t \<noteq> [])"

text \<open>The \<open>for ... of\<close> loop with its counter.\<close>

fun countLines :: "lyric list \<Rightarrow> int \<Rightarrow> int" where
  "countLines [] n = n"
| "countLines (l # ls) n = countLines ls (if hasTextContent l then n + 1 else n)"

definition setCurrentTrack :: "lrcData option \<Rightarrow> enemyHealthState \<Rightarrow> enemyHealthState" where
  "setCurrentTrack lrc s =
     (case lrc of
        None \<Rightarrow> s
      | Some d \<Rightarrow>
          (case lyrics d of
             None \<Rightarrow> s
           | Some ls \<Rightarrow>
               if length ls = 0 then s
               else s\<lparr>lineCount := countLines ls 0, linesCompleted := 0\<rparr>))"

definition resetEnemyDamageSystem :: "enemyHealthState \<Rightarrow> enemyHealthState" where
  "resetEnemyDamageSystem s =
     s\<lparr>currentHealth := maxHealth, totalDamageDealt := 0, linesCompleted := 0,
       isDefeated := False\<rparr>"

text \<open>The state after \<open>n\<close> successful calls in a row.\<close>

fun applyDamageTimes :: "nat \<Rightarrow> enemyHealthState \<Rightarrow> enemyHealthState" where
  "applyDamageTimes 0 s = s"
| "applyDamageTimes (Suc n) s = applyDamageTimes n (fst (applyDamage True s))"

text \<open>A track of \<open>n\<close> lines, all with the text \<open>la\<close>.\<close>

definition trackOfLines :: "nat \<Rightarrow> lrcData option" where
  "trackOfLines n = Some \<lparr>lyrics = Some (replicate n \<lparr>lyric_text = Some [0x6C, 0x61]\<rparr>)\<rparr>"

text \<open>
  Lyrics for the concrete instance: the line \<open>la\<close>, a line of two spaces, a line that
  is one no-break space, a line of a byte order mark and an ideographic space, a line
  with no text property, an empty line, and the line \<open>la\<close> between an en space and a
  line feed. The first and the last have text.
\<close>

definition exampleLyrics :: "lyric list" where
  "exampleLyrics =
     [\<lparr>lyric_text = Some [0x6C, 0x61]\<rparr>, \<lparr>lyric_text = Some [0x20, 0x20]\<rparr>,
      \<lparr>lyric_text = Some [0xA0]\<rparr>, \<lparr>lyric_text = Some [0xFEFF, 0x3000]\<rparr>,
      \<lparr>lyric_text = None\<rparr>, \<lparr>lyric_text = Some []\<rparr>,
      \<lparr>lyric_text = Some [0x2002, 0x6C, 0x61, 0x0A]\<rparr>]"

text \<open>
  A lyric line with non-empty text, as the track intake counts them: the text is present
  and holds at least one code unit that is not white space.
\<close>

definition nonEmptyText :: "lyric \<Rightarrow> bool" where
  "nonEmptyText l =
     (case lyric_text l of None \<Rightarrow> False | Some t \<Rightarrow> \<exists>c \<in> set t. \<not> isWhiteSpace c)"

text \<open>
  The calls that change the health state from outside, for statements about every
  reachable state.
\<close>

datatype healthOp = ApplyDamage bool | SetCurrentTrack "lrcData option" | Reset

fun healthStep :: "healthOp \<Rightarrow> enemyHealthState \<Rightarrow> enemyHealthState" where
  "healthStep (ApplyDamage ok) s = fst (applyDamage ok s)"
| "healthStep (SetCurrentTrack lrc) s = setCurrentTrack lrc s"
| "healthStep Reset s = resetEnemyDamageSystem s"

fun healthRun :: "healthOp list \<Rightarrow> enemyHealthState \<Rightarrow> enemyHealthState" where
  "healthRun [] s = s"
| "healthRun (op # ops) s = healthRun ops (healthStep op s)"

text \<open>A fresh state: what \<open>initEnemyDamage\<close> and \<open>resetEnemyDamageSystem\<close> leave.\<close>

definition freshHealthState :: "enemyHealthState \<Rightarrow> bool" where
  "freshHealthState s =
     (currentHealth s = maxHealth \<and> totalDamageDealt s = 0 \<and> linesCompleted s = 0 \<and>
      \<not> isDefeated s)"

definition healthInv :: "enemyHealthState \<Rightarrow> bool" where
  "healthInv s = (0 \<le> currentHealth s \<and> (currentHealth s = 0 \<longleftrightarrow> isDefeated s))"

section \<open>Locomotion and pose controller (enemy\_movement.js)\<close>

text \<open>
  JavaScript numbers that hold positions, scales and probabilities are modelled as
  \<open>real\<close>, frame counters and the direction (\<open>-1\<close> or \<open>1\<close>) as \<open>int\<close>. The meshes of
  the scene graph are shared objects: the enemy's \<open>children\<close> and the entries of
  \<open>enemyState.bodyParts\<close> point to the same ones, so they live in a store from
  references to meshes. Each \<open>Math.random()\<close> of a tick is an input of the tick.
\<close>

record vector3 =
  vec_x :: real
  vec_y :: real
  vec_z :: real

type_synonym ref = nat

record mesh =
  geometry :: bool
  isGroup :: bool
  mesh_position :: vector3
  userData_originalY :: "real option"

record enemy =
  position :: vector3
  scale_y :: real
  children :: "ref list"

record enemyConfig =
  moveSpeed :: real
  minX :: real
  maxX :: real
  initialPosition :: real
  initialPositionY :: real
  crouchProbability :: real
  crouchDuration :: int
  crouchAmount :: real
  crouchScale :: real
  crouchPositionY :: real
  changeDirectionChance :: real
  pauseChance :: real
  pauseDuration :: int

text \<open>The configuration literal of the source.\<close>

definition defaultEnemyConfig :: enemyConfig where
  "defaultEnemyConfig =
     \<lparr>moveSpeed = 0.15, minX = 10, maxX = 40, initialPosition = 30, initialPositionY = 2.5,
      crouchProbability = 0.005, crouchDuration = 60, crouchAmount = 10, crouchScale = 1.4,
      crouchPositionY = - 1.5, changeDirectionChance = 0.002, pauseChance = 0.002,
      pauseDuration = 60\<rparr>"

record bodyParts =
  head :: "ref option"
  body :: "ref option"
  weapon :: "ref option"
  legs :: "ref list"

record enemyState =
  direction :: int
  isCrouching :: bool
  crouchTimer :: int
  isPaused :: bool
  pauseTimer :: int
  originalScale :: real
  originalY :: real
  bodyParts :: bodyParts

text \<open>The state literal of the source.\<close>

definition initialEnemyState :: enemyState where
  "initialEnemyState =
     \<lparr>direction = - 1, isCrouching = False, crouchTimer = 0, isPaused = False, pauseTimer = 0,
      originalScale = 1, originalY = 0,
      bodyParts = \<lparr>head = None, body = None, weapon = None, legs = []\<rparr>\<rparr>"

text \<open>The enemy object, the mesh store and the module state, threaded through every call.\<close>

record world =
  enemy :: enemy
  meshes :: "ref \<Rightarrow> mesh"
  state :: enemyState

text \<open>The three random numbers a tick may draw, each in \<open>[0, 1)\<close>.\<close>

record rolls =
  crouchRoll :: real
  pauseRoll :: real
  directionRoll :: real

definition setEnemyX :: "real \<Rightarrow> world \<Rightarrow> world" where
  "setEnemyX v w = w\<lparr>enemy := (enemy w)\<lparr>position := (position (enemy w))\<lparr>vec_x := v\<rparr>\<rparr>\<rparr>"

definition setEnemyY :: "real \<Rightarrow> world \<Rightarrow> world" where
  "setEnemyY v w = w\<lparr>enemy := (enemy w)\<lparr>position := (position (enemy w))\<lparr>vec_y := v\<rparr>\<rparr>\<rparr>"

definition setEnemyScaleY :: "real \<Rightarrow> world \<Rightarrow> world" where
  "setEnemyScaleY v w = w\<lparr>enemy := (enemy w)\<lparr>scale_y := v\<rparr>\<rparr>"

definition setMeshY :: "real \<Rightarrow> mesh \<Rightarrow> mesh" where
  "setMeshY v m = m\<lparr>mesh_position := (mesh_position m)\<lparr>vec_y := v\<rparr>\<rparr>"

definition meshY :: "mesh \<Rightarrow> real" where
  "meshY m = vec_y (mesh_position m)"

text \<open>
  Truthiness of \<open>userData.originalY\<close>: \<open>undefined\<close> and \<open>0\<close> are falsy, every other
  number is truthy.
\<close>

definition truthy :: "real option \<Rightarrow> bool" where
  "truthy v = (case v of None \<Rightarrow> False | Some r \<Rightarrow> r \<noteq> 0)"

text \<open>
  \<open>if (part && !part.userData.originalY) part.userData.originalY = part.position.y\<close>,
  written three times in \<open>startCrouching\<close>.
\<close>

definition storeOriginalY :: "ref option \<Rightarrow> (ref \<Rightarrow> mesh) \<Rightarrow> (ref \<Rightarrow> mesh)" where
  "storeOriginalY part h =
     (case part of
        None \<Rightarrow> h
      | Some r \<Rightarrow>
          if \<not> truthy (userData_originalY (h r))
          then h(r := (h r)\<lparr>userData_originalY := Some (meshY (h r))\<rparr>)
          else h)"

text \<open>
  \<open>if (part && part.userData.originalY) part.position.y = part.userData.originalY - amount\<close>,
  written three times in \<open>maintainCrouchState\<close>.
\<close>

definition lowerPart :: "ref option \<Rightarrow> real \<Rightarrow> (ref \<Rightarrow> mesh) \<Rightarrow> (ref \<Rightarrow> mesh)" where
  "lowerPart part amount h =
     (case part of
        None \<Rightarrow> h
      | Some r \<Rightarrow>
          (case userData_originalY (h r) of
             None \<Rightarrow> h
           | Some oy \<Rightarrow> if oy \<noteq> 0 then h(r := setMeshY (oy - amount) (h r)) else h))"

text \<open>
  \<open>if (part && part.userData.originalY !== undefined) part.position.y = part.userData.originalY\<close>,
  written three times in \<open>stopCrouching\<close>.
\<close>

definition restorePart :: "ref option \<Rightarrow> (ref \<Rightarrow> mesh) \<Rightarrow> (ref \<Rightarrow> mesh)" where
  "restorePart part h =
     (case part of
        None \<Rightarrow> h
      | Some r \<Rightarrow>
          (case userData_originalY (h r) of
             None \<Rightarrow> h
           | Some oy \<Rightarrow> h(r := setMeshY oy (h r))))"

definition maintainCrouchState :: "enemyConfig \<Rightarrow> world \<Rightarrow> world" where
  "maintainCrouchState cfg w =
     (let w1 = setEnemyScaleY (originalScale (state w) / crouchScale cfg) w;
          w2 = setEnemyY (initialPositionY cfg + crouchPositionY cfg) w1;
          parts = bodyParts (state w2);
          h1 = lowerPart (head parts) (crouchAmount cfg) (meshes w2);
          h2 = lowerPart (body parts) (crouchAmount cfg * 0.8) h1;
          h3 = lowerPart (weapon parts) (crouchAmount cfg * 0.8) h2
      in w2\<lparr>meshes := h3\<rparr>)"

definition startCrouching :: "enemyConfig \<Rightarrow> world \<Rightarrow> world" where
  "startCrouching cfg w =
     (let w1 = w\<lparr>state := (state w)\<lparr>isCrouching := True, crouchTimer := crouchDuration cfg\<rparr>\<rparr>;
          parts = bodyParts (state w1);
          h1 = storeOriginalY (head parts) (meshes w1);
          h2 = storeOriginalY (body parts) h1;
          h3 = storeOriginalY (weapon parts) h2
      in maintainCrouchState cfg (w1\<lparr>meshes := h3\<rparr>))"

definition stopCrouching :: "enemyConfig \<Rightarrow> world \<Rightarrow> world" where
  "stopCrouching cfg w =
     (let w1 = w\<lparr>state := (state w)\<lparr>isCrouching := False\<rparr>\<rparr>;
          w2 = setEnemyScaleY (originalScale (state w1)) w1;
          w3 = setEnemyY (initialPositionY cfg) w2;
          parts = bodyParts (state w3);
          h1 = restorePart (head parts) (meshes w3);
          h2 = restorePart (body parts) h1;
          h3 = restorePart (weapon parts) h2
      in w3\<lparr>meshes := h3\<rparr>)"

text \<open>\<open>handleCrouching\<close>; the random number is drawn only when the enemy is not crouching.\<close>

definition handleCrouching :: "enemyConfig \<Rightarrow> real \<Rightarrow> world \<Rightarrow> world" where
  "handleCrouching cfg roll w =
     (let w1 = (if \<not> isCrouching (state w) \<and> roll < crouchProbability cfg
                then startCrouching cfg w else w)
      in if isCrouching (state w1)
         then
           let w2 = maintainCrouchState cfg w1;
               w3 = w2\<lparr>state := (state w2)\<lparr>crouchTimer := crouchTimer (state w2) - 1\<rparr>\<rparr>
           in if crouchTimer (state w3) \<le> 0 then stopCrouching cfg w3 else w3
         else w1)"

text \<open>
  \<open>updateEnemyMovement(enemy, deltaTime)\<close>. \<open>deltaTime\<close> is never read. The flag
  \<open>enemyGiven\<close> is the truthiness of the \<open>enemy\<close> argument: without it the call returns
  at once.
\<close>

definition updateEnemyMovement :: "enemyConfig \<Rightarrow> rolls \<Rightarrow> bool \<Rightarrow> world \<Rightarrow> world" where
  "updateEnemyMovement cfg r enemyGiven w =
     (if \<not> enemyGiven then w
      else
        let w1 = (if \<not> isCrouching (state w)
                  then (setEnemyY (initialPositionY cfg) w)
                         \<lparr>state := (state w)\<lparr>originalY := initialPositionY cfg\<rparr>\<rparr>
                  else w);
            w2 = handleCrouching cfg (crouchRoll r) w1
        in if isPaused (state w2)
           then
             let w3 = w2\<lparr>state := (state w2)\<lparr>pauseTimer := pauseTimer (state w2) - 1\<rparr>\<rparr>
             in if pauseTimer (state w3) \<le> 0
                then w3\<lparr>state := (state w3)\<lparr>isPaused := False\<rparr>\<rparr>
                else w3
           else if pauseRoll r < pauseChance cfg
           then w2\<lparr>state := (state w2)\<lparr>isPaused := True, pauseTimer := pauseDuration cfg\<rparr>\<rparr>
           else
             let w4 = (if directionRoll r < changeDirectionChance cfg
                       then w2\<lparr>state := (state w2)\<lparr>direction := direction (state w2) * (- 1)\<rparr>\<rparr>
                       else w2)
             in if direction (state w4) = - 1
                then
                  let w5 = setEnemyX (vec_x (position (enemy w4)) - moveSpeed cfg) w4
                  in if vec_x (position (enemy w5)) \<le> minX cfg
                     then (setEnemyX (minX cfg) w5)\<lparr>state := (state w5)\<lparr>direction := 1\<rparr>\<rparr>
                     else w5
                else
                  let w5 = setEnemyX (vec_x (position (enemy w4)) + moveSpeed cfg) w4
                  in if vec_x (position (enemy w5)) \<ge> maxX cfg
                     then (setEnemyX (maxX cfg) w5)\<lparr>state := (state w5)\<lparr>direction := - 1\<rparr>\<rparr>
                     else w5)"

text \<open>
  \<open>initEnemyMovement(enemy)\<close>. A child counts when it has a geometry and is not a group;
  it is a head candidate above 5, a weapon or body candidate above 0 (a weapon when it
  reaches more than 3 to the side or to the front), a leg below 0. The sorts are stable
  and descending, and the first candidate of each kind is kept; when there is none the
  old reference stays. Legs are pushed onto the list that is already there.
\<close>

definition isCandidate :: "(ref \<Rightarrow> mesh) \<Rightarrow> ref \<Rightarrow> bool" where
  "isCandidate h r = (geometry (h r) \<and> \<not> isGroup (h r))"

definition isSideways :: "mesh \<Rightarrow> bool" where
  "isSideways m = (\<bar>vec_x (mesh_position m)\<bar> > 3 \<or> \<bar>vec_z (mesh_position m)\<bar> > 3)"

definition headCandidates :: "(ref \<Rightarrow> mesh) \<Rightarrow> ref list \<Rightarrow> ref list" where
  "headCandidates h cs = filter (\<lambda>r. isCandidate h r \<and> meshY (h r) > 5) cs"

definition weaponCandidates :: "(ref \<Rightarrow> mesh) \<Rightarrow> ref list \<Rightarrow> ref list" where
  "weaponCandidates h cs =
     filter (\<lambda>r. isCandidate h r \<and> \<not> meshY (h r) > 5 \<and> meshY (h r) > 0 \<and> isSideways (h r)) cs"

definition bodyCandidates :: "(ref \<Rightarrow> mesh) \<Rightarrow> ref list \<Rightarrow> ref list" where
  "bodyCandidates h cs =
     filter (\<lambda>r. isCandidate h r \<and> \<not> meshY (h r) > 5 \<and> meshY (h r) > 0 \<and> \<not> isSideways (h r)) cs"

definition legCandidates :: "(ref \<Rightarrow> mesh) \<Rightarrow> ref list \<Rightarrow> ref list" where
  "legCandidates h cs =
     filter (\<lambda>r. isCandidate h r \<and> \<not> meshY (h r) > 5 \<and> \<not> meshY (h r) > 0 \<and> meshY (h r) < 0) cs"

definition firstOr :: "ref option \<Rightarrow> ref list \<Rightarrow> ref option" where
  "firstOr old cands = (case cands of [] \<Rightarrow> old | r # _ \<Rightarrow> Some r)"

definition initEnemyMovement :: "enemyConfig \<Rightarrow> bool \<Rightarrow> world \<Rightarrow> world" where
  "initEnemyMovement cfg enemyGiven w =
     (if \<not> enemyGiven then w
      else
        let w1 = setEnemyY (initialPositionY cfg) w;
            w2 = w1\<lparr>state := (state w1)\<lparr>originalScale := scale_y (enemy w1),
                                          originalY := vec_y (position (enemy w1))\<rparr>\<rparr>;
            h = meshes w2;
            cs = children (enemy w2);
            heads = sort_key (\<lambda>r. - meshY (h r)) (headCandidates h cs);
            bodies = sort_key (\<lambda>r. - meshY (h r)) (bodyCandidates h cs);
            weapons = sort_key (\<lambda>r. - \<bar>vec_x (mesh_position (h r))\<bar>) (weaponCandidates h cs);
            old = bodyParts (state w2);
            parts = \<lparr>head = firstOr (head old) heads, body = firstOr (body old) bodies,
                     weapon = firstOr (weapon old) weapons,
                     legs = legs old @ legCandidates h cs\<rparr>;
            w3 = w2\<lparr>state := (state w2)\<lparr>bodyParts := parts\<rparr>\<rparr>
        in setEnemyX (initialPosition cfg) w3)"

definition setEnemyPosition :: "real \<Rightarrow> enemyConfig \<Rightarrow> enemyConfig" where
  "setEnemyPosition xPosition cfg = cfg\<lparr>initialPosition := xPosition\<rparr>"

text \<open>
  The first step of \<open>updateEnemyMovement\<close> on its own: a standing enemy is put back at
  the base height.
\<close>

definition pinStanding :: "enemyConfig \<Rightarrow> world \<Rightarrow> world" where
  "pinStanding cfg w =
     (if \<not> isCrouching (state w)
      then (setEnemyY (initialPositionY cfg) w)
             \<lparr>state := (state w)\<lparr>originalY := initialPositionY cfg\<rparr>\<rparr>
      else w)"

text \<open>
  The direction the enemy travels in on a tick: the stored direction, flipped when the
  direction roll succeeds.
\<close>

definition travelDirection :: "enemyConfig \<Rightarrow> rolls \<Rightarrow> world \<Rightarrow> int" where
  "travelDirection cfg r w =
     (if directionRoll r < changeDirectionChance cfg then - direction (state w)
      else direction (state w))"

text \<open>A tick reaches the movement step when it is neither paused nor rolls a pause.\<close>

definition movingTick :: "enemyConfig \<Rightarrow> rolls \<Rightarrow> bool \<Rightarrow> world \<Rightarrow> bool" where
  "movingTick cfg r enemyGiven w =
     (enemyGiven \<and> \<not> isPaused (state w) \<and> \<not> pauseRoll r < pauseChance cfg)"

text \<open>Consecutive ticks, one set of random numbers each, with the enemy present.\<close>

fun ticks :: "enemyConfig \<Rightarrow> rolls list \<Rightarrow> world \<Rightarrow> world" where
  "ticks cfg [] w = w"
| "ticks cfg (r # rs) w = ticks cfg rs (updateEnemyMovement cfg r True w)"

text \<open>
  A small scene for the concrete instances: a head at height 8, a torso at 3, a weapon
  reaching 5 to the side, and a leg below the centre.
\<close>

definition exampleMeshes :: "ref \<Rightarrow> mesh" where
  "exampleMeshes r =
     (if r = 0 then
        \<lparr>geometry = True, isGroup = False,
         mesh_position = \<lparr>vec_x = 0, vec_y = 8, vec_z = 0\<rparr>, userData_originalY = None\<rparr>
      else if r = 1 then
        \<lparr>geometry = True, isGroup = False,
         mesh_position = \<lparr>vec_x = 0, vec_y = 3, vec_z = 0\<rparr>, userData_originalY = None\<rparr>
      else if r = 2 then
        \<lparr>geometry = True, isGroup = False,
         mesh_position = \<lparr>vec_x = - 5, vec_y = 2, vec_z = 0\<rparr>, userData_originalY = None\<rparr>
      else
        \<lparr>geometry = True, isGroup = False,
         mesh_position = \<lparr>vec_x = 0, vec_y = - 3, vec_z = 0\<rparr>, userData_originalY = None\<rparr>)"

definition exampleWorld :: world where
  "exampleWorld =
     \<lparr>enemy = \<lparr>position = \<lparr>vec_x = 30, vec_y = 2.5, vec_z = 0\<rparr>, scale_y = 1,
               children = [0, 1, 2, 3]\<rparr>,
      meshes = exampleMeshes,
      state = initialEnemyState\<lparr>bodyParts :=
                \<lparr>head = Some 0, body = Some 1, weapon = Some 2, legs = [3]\<rparr>\<rparr>\<rparr>"

definition noRolls :: rolls where
  "noRolls = \<lparr>crouchRoll = 0.5, pauseRoll = 0.5, directionRoll = 0.5\<rparr>"

text \<open>
  The body parts the crouch moves: the meshes that \<open>bodyParts\<close> holds as head, body or weapon.
\<close>

definition tracked :: "bodyParts \<Rightarrow> ref \<Rightarrow> bool" where
  "tracked parts r = (head parts = Some r \<or> body parts = Some r \<or> weapon parts = Some r)"

text \<open>
  A part whose recorded base offset, where one is recorded and not zero, is the offset the part has now.
\<close>

definition baseAgrees :: "(ref \<Rightarrow> mesh) \<Rightarrow> ref option \<Rightarrow> bool" where
  "baseAgrees h part =
     (case part of
        None \<Rightarrow> True
      | Some r \<Rightarrow>
          (case userData_originalY (h r) of
             None \<Rightarrow> True
           | Some oy \<Rightarrow> oy = 0 \<or> oy = meshY (h r)))"

text \<open>
  A pose whose recorded bases are the current values: the enemy has the scale recorded as
  \<open>originalScale\<close>, and the recorded base of every tracked part agrees with its offset.
\<close>

definition poseConsistent :: "world \<Rightarrow> bool" where
  "poseConsistent w =
     (scale_y (enemy w) = originalScale (state w) \<and>
      baseAgrees (meshes w) (head (bodyParts (state w))) \<and>
      baseAgrees (meshes w) (body (bodyParts (state w))) \<and>
      baseAgrees (meshes w) (weapon (bodyParts (state w))))"

text \<open>
  The three recordings of \<open>startCrouching\<close>, in the order of the source.
\<close>

definition storeAll :: "bodyParts \<Rightarrow> (ref \<Rightarrow> mesh) \<Rightarrow> (ref \<Rightarrow> mesh)" where
  "storeAll parts h =
     storeOriginalY (weapon parts) (storeOriginalY (body parts) (storeOriginalY (head parts) h))"

text \<open>
  The three restorations of \<open>stopCrouching\<close>, in the order of the source.
\<close>

definition restoreAll :: "bodyParts \<Rightarrow> (ref \<Rightarrow> mesh) \<Rightarrow> (ref \<Rightarrow> mesh)" where
  "restoreAll parts h =
     restorePart (weapon parts) (restorePart (body parts) (restorePart (head parts) h))"

text \<open>
  The three displacements of \<open>maintainCrouchState\<close>, in the order of the source.
\<close>

definition lowerAll :: "enemyConfig \<Rightarrow> bodyParts \<Rightarrow> (ref \<Rightarrow> mesh) \<Rightarrow> (ref \<Rightarrow> mesh)" where
  "lowerAll cfg parts h =
     lowerPart (weapon parts) (crouchAmount cfg * 0.8)
       (lowerPart (body parts) (crouchAmount cfg * 0.8)
          (lowerPart (head parts) (crouchAmount cfg) h))"

text \<open>
  Random numbers of a tick on which the crouch roll succeeds and the other rolls fail.
\<close>

definition crouchNow :: rolls where
  "crouchNow = noRolls\<lparr>crouchRoll := 0.001\<rparr>"

text \<open>
  The example scene with recorded bases that differ from the current values: the enemy
  has scale 2 while \<open>originalScale\<close> still holds the 1 of the state literal, and the
  head, now at 8, has 7 recorded as its base.
\<close>

definition staleWorld :: world where
  "staleWorld =
     exampleWorld\<lparr>enemy := (enemy exampleWorld)\<lparr>scale_y := 2\<rparr>,
                    meshes := exampleMeshes(0 := (exampleMeshes 0)\<lparr>userData_originalY := Some 7\<rparr>)\<rparr>"

text \<open>
  The example scene, paused with one frame left.
\<close>

definition pausedWorld :: world where
  "pausedWorld =
     exampleWorld\<lparr>state := (state exampleWorld)\<lparr>isPaused := True, pauseTimer := 1\<rparr>\<rparr>"

text \<open>
  The example scene one tick after both the crouch roll and the pause roll succeeded:
  the enemy is crouching and paused, with both timers running.
\<close>

definition busyWorld :: world where
  "busyWorld =
     updateEnemyMovement defaultEnemyConfig
       \<lparr>crouchRoll = 0.001, pauseRoll = 0.001, directionRoll = 0.5\<rparr> True exampleWorld"

text \<open>The same enemy, crouching and paused, on the last frame of its crouch.\<close>

definition lastFrameWorld :: world where
  "lastFrameWorld = busyWorld\<lparr>state := (state busyWorld)\<lparr>crouchTimer := 1\<rparr>\<rparr>"

section \<open>Fire origin and height arbitrator (bullet\_origin\_fix.js)\<close>

text \<open>
  Heights and offsets are \<open>real\<close>; \<open>Date.now()\<close> counts whole milliseconds and is an
  \<open>int\<close>, passed to \<open>canFireAtHeight\<close> as an argument.
\<close>

record bulletOriginConfig =
  offsetX :: real
  offsetY :: real
  crouchOffsetY :: real
  debugMode :: bool
  shotCooldown :: int

definition defaultBulletOriginConfig :: bulletOriginConfig where
  "defaultBulletOriginConfig =
     \<lparr>offsetX = - 11.5, offsetY = 7.5, crouchOffsetY = - 4.5, debugMode = False,
      shotCooldown = 1000\<rparr>"

text \<open>
  \<open>originMarker\<close> is the position of the debug marker when there is one;
  \<open>lastShotHeight\<close> is \<open>null\<close> (\<open>None\<close>) until the first shot, then \<open>true\<close> for a high
  shot and \<open>false\<close> for a low one.
\<close>

record bulletOriginState =
  originMarker :: "vector3 option"
  lastKnownPosition :: vector3
  lastShotHeight :: "bool option"
  lastShotTime :: int
  highThreshold :: real

definition initialBulletOriginState :: bulletOriginState where
  "initialBulletOriginState =
     \<lparr>originMarker = None, lastKnownPosition = \<lparr>vec_x = 0, vec_y = 0, vec_z = 0\<rparr>,
      lastShotHeight = None, lastShotTime = 0, highThreshold = 4\<rparr>"

text \<open>
  What \<open>updateBulletOriginPosition\<close> reads from outside the module: the position of the
  global \<open>enemy\<close> (\<open>None\<close> when the variable is undefined or \<open>null\<close>), and from
  \<open>EnemyMovement.state\<close> (\<open>None\<close> when that module is not loaded) the crouch flag and,
  when \<open>bodyParts.weapon\<close> is set, the weapon's world position as
  \<open>getWorldPosition\<close> reports it.
\<close>

record movementInfo =
  info_isCrouching :: bool
  info_weaponWorldPos :: "vector3 option"

record originScene =
  scene_enemy :: "vector3 option"
  scene_movement :: "movementInfo option"

definition updateBulletOriginPosition ::
  "bulletOriginConfig \<Rightarrow> originScene \<Rightarrow> bulletOriginState \<Rightarrow> bulletOriginState \<times> vector3" where
  "updateBulletOriginPosition cfg scene s =
     (case scene_enemy scene of
        None \<Rightarrow> (s, lastKnownPosition s)
      | Some enemyPosition \<Rightarrow>
          let o1 = enemyPosition\<lparr>vec_x := vec_x enemyPosition + offsetX cfg\<rparr>;
              o2 = o1\<lparr>vec_y := vec_y o1 + offsetY cfg\<rparr>;
              o5 = (case scene_movement scene of
                      None \<Rightarrow> o2
                    | Some m \<Rightarrow>
                        let o3 = (if info_isCrouching m
                                  then o2\<lparr>vec_y := vec_y o2 + crouchOffsetY cfg\<rparr> else o2)
                        in (case info_weaponWorldPos m of
                              None \<Rightarrow> o3
                            | Some weaponWorldPos \<Rightarrow>
                                let o4 = o3\<lparr>vec_x := vec_x weaponWorldPos - 9.0,
                                            vec_y := vec_y weaponWorldPos + 4.0\<rparr>
                                in if info_isCrouching m
                                   then o4\<lparr>vec_y := vec_y o4 - 3.0\<rparr> else o4));
              s1 = s\<lparr>originMarker := map_option (\<lambda>_. o5) (originMarker s)\<rparr>
          in (s1\<lparr>lastKnownPosition := o5\<rparr>, o5))"

definition getBulletOriginPosition ::
  "bulletOriginConfig \<Rightarrow> originScene \<Rightarrow> bulletOriginState \<Rightarrow> bulletOriginState \<times> vector3" where
  "getBulletOriginPosition cfg scene s = updateBulletOriginPosition cfg scene s"

definition canFireAtHeight ::
  "bulletOriginConfig \<Rightarrow> int \<Rightarrow> real \<Rightarrow> bulletOriginState \<Rightarrow> bulletOriginState \<times> bool" where
  "canFireAtHeight cfg currentTime height s =
     (let isHighShot = (height \<ge> highThreshold s)
      in case lastShotHeight s of
           None \<Rightarrow> (s\<lparr>lastShotHeight := Some isHighShot, lastShotTime := currentTime\<rparr>, True)
         | Some wasHighShot \<Rightarrow>
             if isHighShot = wasHighShot then (s\<lparr>lastShotTime := currentTime\<rparr>, True)
             else
               let timeSinceLastShot = currentTime - lastShotTime s
               in if timeSinceLastShot \<ge> shotCooldown cfg
                  then (s\<lparr>lastShotHeight := Some isHighShot, lastShotTime := currentTime\<rparr>, True)
                  else (s, False))"

text \<open>Scenes for the concrete instances: the enemy standing at \<open>(30, 2.5, 0)\<close>, and no enemy.\<close>

definition standingScene :: originScene where
  "standingScene =
     \<lparr>scene_enemy = Some \<lparr>vec_x = 30, vec_y = 2.5, vec_z = 0\<rparr>,
      scene_movement = Some \<lparr>info_isCrouching = False, info_weaponWorldPos = None\<rparr>\<rparr>"

definition noEnemyScene :: originScene where
  "noEnemyScene = \<lparr>scene_enemy = None, scene_movement = None\<rparr>"

section \<open>Properties of the health and defeat tracker\<close>

subsection \<open>Rejection path\<close>

text \<open>
  C7. \<open>applyDamage\<close> is a no-op when the enemy is already defeated or when the call is
  not successful: it returns the object \<open>{damage: 0}\<close> and the whole state, with
  \<open>currentHealth\<close>, \<open>totalDamageDealt\<close>, \<open>linesCompleted\<close> and \<open>isDefeated\<close>, is the
  state it was called in.
\<close>

theorem applyDamage_rejection_noop:
  "isDefeated s \<or> \<not> isSuccessful \<Longrightarrow>
     applyDamage isSuccessful s = (s, Inr (DamageInfo 0 None None None))"
  by (auto simp: applyDamage_def)

text \<open>
  The instances: a successful call on a defeated enemy, and an unsuccessful call on the
  initial state.
\<close>

theorem applyDamage_rejection_noop_witness:
  "isDefeated (initialHealthState\<lparr>isDefeated := True, currentHealth := 0\<rparr>) \<and>
   applyDamage True (initialHealthState\<lparr>isDefeated := True, currentHealth := 0\<rparr>) =
     (initialHealthState\<lparr>isDefeated := True, currentHealth := 0\<rparr>,
      Inr (DamageInfo 0 None None None)) \<and>
   applyDamage False initialHealthState = (initialHealthState, Inr (DamageInfo 0 None None None)) \<and>
   damage (DamageInfo 0 None None None) = 0"
proof -
  have dead: "isDefeated (initialHealthState\<lparr>isDefeated := True, currentHealth := 0\<rparr>)"
    by simp
  from applyDamage_rejection_noop
         [of "initialHealthState\<lparr>isDefeated := True, currentHealth := 0\<rparr>" True]
       applyDamage_rejection_noop [of initialHealthState False] dead
  show ?thesis by simp
qed

subsection \<open>Accepted calls\<close>

lemma applyDamage_accepted:
  assumes "\<not> isDefeated s"
  shows "linesCompleted (fst (applyDamage True s)) = linesCompleted s + 1"
    and "linesCompleted s + 1 < 35 \<Longrightarrow>
           totalDamageDealt (fst (applyDamage True s)) = totalDamageDealt s + damagePerLineBase \<and>
           currentHealth (fst (applyDamage True s)) = max 0 (currentHealth s - damagePerLineBase)"
    and "35 \<le> linesCompleted s + 1 \<Longrightarrow>
           currentHealth (fst (applyDamage True s)) = 0 \<and> isDefeated (fst (applyDamage True s))"
  using assms by (auto simp: applyDamage_def Let_def)

lemma applyDamage_default_track:
  "currentHealth (applyDamageTimes 34 initialHealthState) = 14"
  "\<not> isDefeated (applyDamageTimes 34 initialHealthState)"
  "currentHealth (applyDamageTimes 35 initialHealthState) = 0"
  "isDefeated (applyDamageTimes 35 initialHealthState)"
  by code_simp+

text \<open>
  Before the 35th line every successful call deals 29, whatever line count the track
  has set: a track of fewer than 35 lines ends with \<open>linesCompleted = lineCount\<close> and
  the enemy alive.
\<close>

lemma applyDamageTimes_before_35:
  assumes "\<not> isDefeated s" and "currentHealth s = 1000 - 29 * linesCompleted s"
    and "0 \<le> linesCompleted s" and "linesCompleted s + int n \<le> 34"
  shows "linesCompleted (applyDamageTimes n s) = linesCompleted s + int n \<and>
         currentHealth (applyDamageTimes n s) = 1000 - 29 * (linesCompleted s + int n) \<and>
         \<not> isDefeated (applyDamageTimes n s)"
  using assms
proof (induction n arbitrary: s)
  case 0
  then show ?case by simp
next
  case (Suc n)
  let ?s = "fst (applyDamage True s)"
  from Suc.prems have step: "linesCompleted ?s = linesCompleted s + 1"
      "currentHealth ?s = 1000 - 29 * (linesCompleted s + 1)" "\<not> isDefeated ?s"
    by (auto simp: applyDamage_def Let_def damagePerLineBase_def)
  from Suc.prems have "0 \<le> linesCompleted ?s" "linesCompleted ?s + int n \<le> 34"
    by (simp_all add: step(1))
  from Suc.IH [OF step(3) _ this] step show ?case
    by (simp add: algebra_simps)
qed

lemma short_track_leaves_enemy_alive:
  assumes "freshHealthState s" and "lrc = Some d" and "lyrics d = Some ls" and "ls \<noteq> []"
    and "countLines ls 0 = int n" and "n \<le> 34"
  shows "lineCount (setCurrentTrack lrc s) = int n \<and>
         linesCompleted (applyDamageTimes n (setCurrentTrack lrc s)) = int n \<and>
         currentHealth (applyDamageTimes n (setCurrentTrack lrc s)) = 1000 - 29 * int n \<and>
         \<not> isDefeated (applyDamageTimes n (setCurrentTrack lrc s))"
proof -
  let ?s = "setCurrentTrack lrc s"
  from assms have s: "lineCount ?s = int n" "linesCompleted ?s = 0" "\<not> isDefeated ?s"
      "currentHealth ?s = 1000"
    by (simp_all add: setCurrentTrack_def freshHealthState_def maxHealth_def)
  from s assms(6) applyDamageTimes_before_35 [of ?s n] show ?thesis
    by simp
qed

text \<open>
  C1. The claim: the call that brings \<open>linesCompleted\<close> to the expected line count set by
  \<open>setCurrentTrack\<close> deals at least the remaining health, so that that many successful
  calls from a fresh state leave \<open>currentHealth = 0\<close> and \<open>isDefeated\<close>. The code tests
  the literal 35 and deals the literal 29, and never reads \<open>lineCount\<close>: after a track of
  ten lines is set on the initial state, ten successful calls leave \<open>linesCompleted\<close>
  equal to \<open>lineCount\<close>, 710 health, and the enemy not defeated.
\<close>

theorem applyDamage_ignores_lineCount:
  "lineCount (setCurrentTrack (trackOfLines 10) initialHealthState) = 10 \<and>
   freshHealthState (setCurrentTrack (trackOfLines 10) initialHealthState) \<and>
   linesCompleted (applyDamageTimes 10 (setCurrentTrack (trackOfLines 10) initialHealthState)) = 10 \<and>
   totalDamageDealt (applyDamageTimes 10 (setCurrentTrack (trackOfLines 10) initialHealthState)) = 290 \<and>
   currentHealth (applyDamageTimes 10 (setCurrentTrack (trackOfLines 10) initialHealthState)) = 710 \<and>
   \<not> isDefeated (applyDamageTimes 10 (setCurrentTrack (trackOfLines 10) initialHealthState))"
  by code_simp

subsection \<open>Invariants of the reachable states\<close>

lemma healthInv_fresh: "freshHealthState s \<Longrightarrow> healthInv s"
  by (simp add: freshHealthState_def healthInv_def maxHealth_def)

lemma healthInv_step: "healthInv s \<Longrightarrow> healthInv (healthStep op s)"
  by (cases op)
     (auto simp: healthInv_def applyDamage_def Let_def setCurrentTrack_def
        resetEnemyDamageSystem_def maxHealth_def damagePerLineBase_def
        split: option.splits)

lemma healthInv_run: "healthInv s \<Longrightarrow> healthInv (healthRun ops s)"
  by (induction ops arbitrary: s) (auto simp: healthInv_step)

lemma healthStep_mono:
  "healthInv s \<Longrightarrow> op \<noteq> Reset \<Longrightarrow>
     currentHealth (healthStep op s) \<le> currentHealth s \<and>
     (isDefeated s \<longrightarrow> isDefeated (healthStep op s))"
  by (cases op)
     (auto simp: healthInv_def applyDamage_def Let_def setCurrentTrack_def
        damagePerLineBase_def split: option.splits)

lemma healthRun_mono:
  "healthInv s \<Longrightarrow> Reset \<notin> set ops \<Longrightarrow>
     currentHealth (healthRun ops s) \<le> currentHealth s \<and>
     (isDefeated s \<longrightarrow> isDefeated (healthRun ops s))"
proof (induction ops arbitrary: s)
  case Nil
  then show ?case by simp
next
  case (Cons op ops)
  from Cons.prems have step: "currentHealth (healthStep op s) \<le> currentHealth s"
      "isDefeated s \<longrightarrow> isDefeated (healthStep op s)"
    using healthStep_mono [of s op] by auto
  from Cons.prems have "healthInv (healthStep op s)" "Reset \<notin> set ops"
    by (auto simp: healthInv_step)
  from Cons.IH [OF this] step show ?case by auto
qed

text \<open>
  C8. In every state \<open>s\<close> reached from a fresh health state by any sequence of
  \<open>applyDamage\<close>, \<open>setCurrentTrack\<close> and reset calls, \<open>currentHealth s = 0\<close> holds
  exactly when \<open>isDefeated s\<close> does; and over any further calls with no reset among
  them, \<open>currentHealth\<close> does not increase and \<open>isDefeated\<close>, once true, stays true.
\<close>

theorem health_invariants:
  assumes "freshHealthState s0"
  shows "(currentHealth (healthRun ops s0) = 0 \<longleftrightarrow> isDefeated (healthRun ops s0)) \<and>
         (Reset \<notin> set later \<longrightarrow>
            currentHealth (healthRun later (healthRun ops s0)) \<le> currentHealth (healthRun ops s0) \<and>
            (isDefeated (healthRun ops s0) \<longrightarrow> isDefeated (healthRun later (healthRun ops s0))))"
proof -
  have inv: "healthInv (healthRun ops s0)"
    using assms by (simp add: healthInv_fresh healthInv_run)
  then show ?thesis
    using healthRun_mono [of "healthRun ops s0" later] by (auto simp: healthInv_def)
qed

theorem health_invariants_witness:
  "freshHealthState initialHealthState \<and>
   Reset \<notin> set [SetCurrentTrack (trackOfLines 3), ApplyDamage True] \<and>
   isDefeated (healthRun (Reset # replicate 35 (ApplyDamage True)) initialHealthState) \<and>
   currentHealth (healthRun (Reset # replicate 35 (ApplyDamage True)) initialHealthState) = 0 \<and>
   currentHealth (healthRun [SetCurrentTrack (trackOfLines 3), ApplyDamage True]
       (healthRun (Reset # replicate 35 (ApplyDamage True)) initialHealthState)) \<le> 0 \<and>
   isDefeated (healthRun [SetCurrentTrack (trackOfLines 3), ApplyDamage True]
       (healthRun (Reset # replicate 35 (ApplyDamage True)) initialHealthState))"
proof -
  have fresh: "freshHealthState initialHealthState"
    by (simp add: freshHealthState_def initialHealthState_def maxHealth_def)
  have dead: "isDefeated (healthRun (Reset # replicate 35 (ApplyDamage True)) initialHealthState)"
    by code_simp
  have noreset: "Reset \<notin> set [SetCurrentTrack (trackOfLines 3), ApplyDamage True]"
    by simp
  from health_invariants [OF fresh, of "Reset # replicate 35 (ApplyDamage True)"
      "[SetCurrentTrack (trackOfLines 3), ApplyDamage True]"] fresh dead noreset
  show ?thesis by simp
qed

subsection \<open>Track intake\<close>

lemma trim_nonempty: "trim t \<noteq> [] \<longleftrightarrow> (\<exists>c \<in> set t. \<not> isWhiteSpace c)"
proof -
  have "trim t \<noteq> [] \<longleftrightarrow> (\<exists>c \<in> set (dropWhile isWhiteSpace t). \<not> isWhiteSpace c)"
    by (auto simp: trim_def)
  also have "\<dots> \<longleftrightarrow> (\<exists>c \<in> set t. \<not> isWhiteSpace c)"
  proof
    assume "\<exists>c \<in> set (dropWhile isWhiteSpace t). \<not> isWhiteSpace c"
    then show "\<exists>c \<in> set t. \<not> isWhiteSpace c"
      using set_dropWhileD by fastforce
  next
    assume "\<exists>c \<in> set t. \<not> isWhiteSpace c"
    then have ne: "dropWhile isWhiteSpace t \<noteq> []"
      by auto
    then have "\<not> isWhiteSpace (hd (dropWhile isWhiteSpace t))"
      by (rule hd_dropWhile)
    moreover have "hd (dropWhile isWhiteSpace t) \<in> set (dropWhile isWhiteSpace t)"
      using ne by simp
    ultimately show "\<exists>c \<in> set (dropWhile isWhiteSpace t). \<not> isWhiteSpace c" by blast
  qed
  finally show ?thesis .
qed

lemma hasTextContent_nonEmptyText: "hasTextContent l = nonEmptyText l"
  by (auto simp: hasTextContent_def nonEmptyText_def trim_nonempty split: option.splits)

lemma countLines_filter: "countLines ls n = n + int (length (filter nonEmptyText ls))"
  by (induction ls arbitrary: n) (auto simp: hasTextContent_nonEmptyText)

text \<open>
  C10. With valid track data (a \<open>lyrics\<close> list that is present and not empty),
  \<open>setCurrentTrack\<close> sets \<open>lineCount\<close> to the number of lyric lines with non-empty text
  (text that is present and is not white space only, by the white space of
  \<open>String.prototype.trim\<close>) and \<open>linesCompleted\<close> to 0, and changes nothing else: \<open>currentHealth\<close>,
  \<open>totalDamageDealt\<close> and \<open>isDefeated\<close> keep their values. With no track data, no
  \<open>lyrics\<close> or an empty \<open>lyrics\<close> list, the state is returned as it was.
\<close>

theorem setCurrentTrack_frame:
  "(lrc = Some d \<and> lyrics d = Some ls \<and> ls \<noteq> [] \<longrightarrow>
      setCurrentTrack lrc s =
        s\<lparr>lineCount := int (length (filter nonEmptyText ls)), linesCompleted := 0\<rparr> \<and>
      currentHealth (setCurrentTrack lrc s) = currentHealth s \<and>
      totalDamageDealt (setCurrentTrack lrc s) = totalDamageDealt s \<and>
      isDefeated (setCurrentTrack lrc s) = isDefeated s) \<and>
   (lrc = None \<or> (\<exists>d'. lrc = Some d' \<and> (lyrics d' = None \<or> lyrics d' = Some [])) \<longrightarrow>
      setCurrentTrack lrc s = s)"
  by (auto simp: setCurrentTrack_def countLines_filter)

text \<open>
  The instance: of the seven example lines only the two that read \<open>la\<close> are counted;
  the lines of spaces, of a no-break space, and of a byte order mark with an ideographic
  space are white space to \<open>trim\<close> and are not. Track data that is \<open>null\<close>, has no
  \<open>lyrics\<close> or has an empty list changes nothing.
\<close>

theorem setCurrentTrack_frame_witness:
  "exampleLyrics \<noteq> [] \<and>
   countLines exampleLyrics 0 = 2 \<and>
   setCurrentTrack (Some \<lparr>lyrics = Some exampleLyrics\<rparr>)
     (initialHealthState\<lparr>currentHealth := 971, totalDamageDealt := 29, linesCompleted := 1\<rparr>) =
   initialHealthState\<lparr>currentHealth := 971, totalDamageDealt := 29, lineCount := 2,
     linesCompleted := 0\<rparr> \<and>
   setCurrentTrack None initialHealthState = initialHealthState \<and>
   setCurrentTrack (Some \<lparr>lyrics = Some []\<rparr>) initialHealthState = initialHealthState \<and>
   setCurrentTrack (Some \<lparr>lyrics = None\<rparr>) initialHealthState = initialHealthState"
proof -
  have ne: "exampleLyrics \<noteq> []"
    by (simp add: exampleLyrics_def)
  have source: "countLines exampleLyrics 0 = 2"
    by code_simp
  have counted: "int (length (filter nonEmptyText exampleLyrics)) = 2"
    by code_simp
  from setCurrentTrack_frame [of "Some \<lparr>lyrics = Some exampleLyrics\<rparr>"
         "\<lparr>lyrics = Some exampleLyrics\<rparr>" exampleLyrics
         "initialHealthState\<lparr>currentHealth := 971, totalDamageDealt := 29, linesCompleted := 1\<rparr>"]
       ne counted
  have valid: "setCurrentTrack (Some \<lparr>lyrics = Some exampleLyrics\<rparr>)
       (initialHealthState\<lparr>currentHealth := 971, totalDamageDealt := 29, linesCompleted := 1\<rparr>) =
     initialHealthState\<lparr>currentHealth := 971, totalDamageDealt := 29, lineCount := 2,
       linesCompleted := 0\<rparr>"
    by (simp add: initialHealthState_def)
  from setCurrentTrack_frame [of None undefined undefined initialHealthState]
       setCurrentTrack_frame [of "Some \<lparr>lyrics = Some []\<rparr>" undefined undefined initialHealthState]
       setCurrentTrack_frame [of "Some \<lparr>lyrics = None\<rparr>" undefined undefined initialHealthState]
  have invalid: "setCurrentTrack None initialHealthState = initialHealthState"
    "setCurrentTrack (Some \<lparr>lyrics = Some []\<rparr>) initialHealthState = initialHealthState"
    "setCurrentTrack (Some \<lparr>lyrics = None\<rparr>) initialHealthState = initialHealthState"
    by simp_all
  from ne source valid invalid show ?thesis by simp
qed

section \<open>Properties of the locomotion and pose controller\<close>

subsection \<open>The example scene\<close>

text \<open>
  \<open>initEnemyMovement\<close> on the example scene with the state literal finds the head, the
  torso, the weapon and the leg, and gives the example world (with \<open>originalY\<close> at the
  base height).
\<close>

lemma exampleWorld_initialised:
  "state (initEnemyMovement defaultEnemyConfig True (exampleWorld\<lparr>state := initialEnemyState\<rparr>)) =
     (state exampleWorld)\<lparr>originalY := 2.5\<rparr> \<and>
   enemy (initEnemyMovement defaultEnemyConfig True (exampleWorld\<lparr>state := initialEnemyState\<rparr>)) =
     enemy exampleWorld"
  by code_simp

subsection \<open>What the crouch functions leave alone\<close>

lemma maintainCrouchState_frame:
  "vec_x (position (enemy (maintainCrouchState cfg w))) = vec_x (position (enemy w))"
  "state (maintainCrouchState cfg w) = state w"
  by (simp_all add: maintainCrouchState_def Let_def setEnemyY_def setEnemyScaleY_def)

lemma startCrouching_frame:
  "vec_x (position (enemy (startCrouching cfg w))) = vec_x (position (enemy w))"
  "state (startCrouching cfg w) =
     (state w)\<lparr>isCrouching := True, crouchTimer := crouchDuration cfg\<rparr>"
  by (simp_all add: startCrouching_def Let_def maintainCrouchState_frame)

lemma stopCrouching_frame:
  "vec_x (position (enemy (stopCrouching cfg w))) = vec_x (position (enemy w))"
  "state (stopCrouching cfg w) = (state w)\<lparr>isCrouching := False\<rparr>"
  by (simp_all add: stopCrouching_def Let_def setEnemyY_def setEnemyScaleY_def)

lemma handleCrouching_frame:
  "vec_x (position (enemy (handleCrouching cfg roll w))) = vec_x (position (enemy w))"
  "direction (state (handleCrouching cfg roll w)) = direction (state w)"
  "isPaused (state (handleCrouching cfg roll w)) = isPaused (state w)"
  "pauseTimer (state (handleCrouching cfg roll w)) = pauseTimer (state w)"
  by (simp_all add: handleCrouching_def Let_def maintainCrouchState_frame startCrouching_frame
        stopCrouching_frame)

lemma pinStanding_frame:
  "vec_x (position (enemy (pinStanding cfg w))) = vec_x (position (enemy w))"
  "direction (state (pinStanding cfg w)) = direction (state w)"
  "isPaused (state (pinStanding cfg w)) = isPaused (state w)"
  "pauseTimer (state (pinStanding cfg w)) = pauseTimer (state w)"
  by (simp_all add: pinStanding_def setEnemyY_def)

subsection \<open>Horizontal movement\<close>

lemma updateEnemyMovement_x:
  "vec_x (position (enemy (updateEnemyMovement cfg r g w))) =
     (if movingTick cfg r g w then
        (if travelDirection cfg r w = - 1
         then (if vec_x (position (enemy w)) - moveSpeed cfg \<le> minX cfg then minX cfg
               else vec_x (position (enemy w)) - moveSpeed cfg)
         else (if vec_x (position (enemy w)) + moveSpeed cfg \<ge> maxX cfg then maxX cfg
               else vec_x (position (enemy w)) + moveSpeed cfg))
      else vec_x (position (enemy w)))"
  by (simp add: updateEnemyMovement_def Let_def handleCrouching_frame setEnemyX_def
        setEnemyY_def movingTick_def travelDirection_def)

lemma updateEnemyMovement_direction:
  "direction (state (updateEnemyMovement cfg r g w)) =
     (if movingTick cfg r g w then
        (if travelDirection cfg r w = - 1
         then (if vec_x (position (enemy w)) - moveSpeed cfg \<le> minX cfg then 1
               else travelDirection cfg r w)
         else (if vec_x (position (enemy w)) + moveSpeed cfg \<ge> maxX cfg then - 1
               else travelDirection cfg r w))
      else direction (state w))"
  by (simp add: updateEnemyMovement_def Let_def handleCrouching_frame setEnemyX_def
        setEnemyY_def movingTick_def travelDirection_def)

text \<open>
  C3. With \<open>minX \<le> maxX\<close> and a positive \<open>moveSpeed\<close>, a tick that starts with
  \<open>positionX\<close> in \<open>[minX, maxX]\<close> and the direction \<open>-1\<close> or \<open>1\<close> ends with
  \<open>positionX\<close> in \<open>[minX, maxX]\<close>. On a tick that reaches the movement step, a step
  to the left that reaches or passes \<open>minX\<close> ends exactly on \<open>minX\<close> with direction
  \<open>1\<close>, a step to the right that reaches or passes \<open>maxX\<close> ends exactly on \<open>maxX\<close>
  with direction \<open>-1\<close>, and whenever the tick ends on a boundary the direction is the
  reverse of the direction travelled, which is the stored direction after the random
  direction change of the same tick.
\<close>

theorem positionX_stays_in_range:
  assumes "minX cfg \<le> maxX cfg" and "0 < moveSpeed cfg"
    and "minX cfg \<le> vec_x (position (enemy w))" and "vec_x (position (enemy w)) \<le> maxX cfg"
    and "direction (state w) = - 1 \<or> direction (state w) = 1"
  shows "minX cfg \<le> vec_x (position (enemy (updateEnemyMovement cfg r g w))) \<and>
         vec_x (position (enemy (updateEnemyMovement cfg r g w))) \<le> maxX cfg \<and>
         (movingTick cfg r g w \<longrightarrow>
            (travelDirection cfg r w = - 1 \<and>
             vec_x (position (enemy w)) - moveSpeed cfg \<le> minX cfg \<longrightarrow>
               vec_x (position (enemy (updateEnemyMovement cfg r g w))) = minX cfg \<and>
               direction (state (updateEnemyMovement cfg r g w)) = 1) \<and>
            (travelDirection cfg r w = 1 \<and>
             maxX cfg \<le> vec_x (position (enemy w)) + moveSpeed cfg \<longrightarrow>
               vec_x (position (enemy (updateEnemyMovement cfg r g w))) = maxX cfg \<and>
               direction (state (updateEnemyMovement cfg r g w)) = - 1) \<and>
            (vec_x (position (enemy (updateEnemyMovement cfg r g w))) = minX cfg \<or>
             vec_x (position (enemy (updateEnemyMovement cfg r g w))) = maxX cfg \<longrightarrow>
               direction (state (updateEnemyMovement cfg r g w)) = - travelDirection cfg r w))"
proof -
  from assms(5) have "travelDirection cfg r w = - 1 \<or> travelDirection cfg r w = 1"
    by (auto simp: travelDirection_def)
  then show ?thesis
    using assms(1-4) unfolding updateEnemyMovement_x updateEnemyMovement_direction by auto
qed

text \<open>
  The instance: the enemy stands at 10.1 heading right, the direction roll turns it
  left, the step to 9.95 passes \<open>minX = 10\<close>, and the tick ends on 10 heading right.
\<close>

theorem positionX_stays_in_range_witness:
  "minX defaultEnemyConfig \<le> maxX defaultEnemyConfig \<and> 0 < moveSpeed defaultEnemyConfig \<and>
   minX defaultEnemyConfig \<le> vec_x (position (enemy (setEnemyX 10.1
       (exampleWorld\<lparr>state := (state exampleWorld)\<lparr>direction := 1\<rparr>\<rparr>)))) \<and>
   movingTick defaultEnemyConfig (noRolls\<lparr>directionRoll := 0.001\<rparr>) True
     (setEnemyX 10.1 (exampleWorld\<lparr>state := (state exampleWorld)\<lparr>direction := 1\<rparr>\<rparr>)) \<and>
   travelDirection defaultEnemyConfig (noRolls\<lparr>directionRoll := 0.001\<rparr>)
     (setEnemyX 10.1 (exampleWorld\<lparr>state := (state exampleWorld)\<lparr>direction := 1\<rparr>\<rparr>)) = - 1 \<and>
   vec_x (position (enemy (updateEnemyMovement defaultEnemyConfig
     (noRolls\<lparr>directionRoll := 0.001\<rparr>) True
     (setEnemyX 10.1 (exampleWorld\<lparr>state := (state exampleWorld)\<lparr>direction := 1\<rparr>\<rparr>))))) = 10 \<and>
   direction (state (updateEnemyMovement defaultEnemyConfig
     (noRolls\<lparr>directionRoll := 0.001\<rparr>) True
     (setEnemyX 10.1 (exampleWorld\<lparr>state := (state exampleWorld)\<lparr>direction := 1\<rparr>\<rparr>)))) = 1"
proof -
  let ?w = "setEnemyX 10.1 (exampleWorld\<lparr>state := (state exampleWorld)\<lparr>direction := 1\<rparr>\<rparr>)"
  let ?r = "noRolls\<lparr>directionRoll := 0.001\<rparr>"
  have cfg: "minX defaultEnemyConfig \<le> maxX defaultEnemyConfig" "0 < moveSpeed defaultEnemyConfig"
    by (simp_all add: defaultEnemyConfig_def)
  have x: "vec_x (position (enemy ?w)) = 10.1"
    by (simp add: setEnemyX_def)
  have range: "minX defaultEnemyConfig \<le> vec_x (position (enemy ?w))"
      "vec_x (position (enemy ?w)) \<le> maxX defaultEnemyConfig"
    unfolding x by (simp_all add: defaultEnemyConfig_def)
  have dir: "direction (state ?w) = - 1 \<or> direction (state ?w) = 1"
    by (simp add: setEnemyX_def)
  have moving: "movingTick defaultEnemyConfig ?r True ?w"
    by (simp add: movingTick_def setEnemyX_def exampleWorld_def initialEnemyState_def
          noRolls_def defaultEnemyConfig_def)
  have travel: "travelDirection defaultEnemyConfig ?r ?w = - 1"
    by (simp add: travelDirection_def setEnemyX_def noRolls_def defaultEnemyConfig_def)
  have passes: "vec_x (position (enemy ?w)) - moveSpeed defaultEnemyConfig \<le> minX defaultEnemyConfig"
    unfolding x by (simp add: defaultEnemyConfig_def)
  have ten: "minX defaultEnemyConfig = 10"
    by (simp add: defaultEnemyConfig_def)
  from positionX_stays_in_range [OF cfg range dir, of ?r True] moving travel passes
  have "vec_x (position (enemy (updateEnemyMovement defaultEnemyConfig ?r True ?w))) =
          minX defaultEnemyConfig \<and>
        direction (state (updateEnemyMovement defaultEnemyConfig ?r True ?w)) = 1"
    by blast
  with cfg range(1) moving travel ten show ?thesis by simp
qed

text \<open>
  Both conditions of a tick, the range of \<open>positionX\<close> and the direction being \<open>-1\<close>
  or \<open>1\<close>, hold again after it, and so after any number of ticks.
\<close>

lemma ticks_keep_range:
  assumes "minX cfg \<le> maxX cfg" and "0 \<le> moveSpeed cfg"
    and "minX cfg \<le> vec_x (position (enemy w))" and "vec_x (position (enemy w)) \<le> maxX cfg"
    and "direction (state w) = - 1 \<or> direction (state w) = 1"
  shows "minX cfg \<le> vec_x (position (enemy (ticks cfg rs w))) \<and>
         vec_x (position (enemy (ticks cfg rs w))) \<le> maxX cfg \<and>
         (direction (state (ticks cfg rs w)) = - 1 \<or> direction (state (ticks cfg rs w)) = 1)"
  using assms(3-5)
proof (induction rs arbitrary: w)
  case Nil
  then show ?case by simp
next
  case (Cons r rs)
  from Cons.prems(3) have t: "travelDirection cfg r w = - 1 \<or> travelDirection cfg r w = 1"
    by (auto simp: travelDirection_def)
  have x: "minX cfg \<le> vec_x (position (enemy (updateEnemyMovement cfg r True w)))"
      "vec_x (position (enemy (updateEnemyMovement cfg r True w))) \<le> maxX cfg"
    using assms(1,2) Cons.prems(1,2) unfolding updateEnemyMovement_x by auto
  have d: "direction (state (updateEnemyMovement cfg r True w)) = - 1 \<or>
           direction (state (updateEnemyMovement cfg r True w)) = 1"
    using t Cons.prems(3) unfolding updateEnemyMovement_direction by auto
  from Cons.IH [OF x d] show ?case by simp
qed

subsection \<open>The crouch, tick by tick\<close>

lemma storeOriginalY_meshY [simp]: "meshY (storeOriginalY p h r) = meshY (h r)"
  by (simp add: storeOriginalY_def meshY_def split: option.splits)

lemma lowerPart_userData [simp]:
  "userData_originalY (lowerPart p a h r) = userData_originalY (h r)"
  by (simp add: lowerPart_def setMeshY_def split: option.splits)

lemma restorePart_userData [simp]:
  "userData_originalY (restorePart p h r) = userData_originalY (h r)"
  by (simp add: restorePart_def setMeshY_def split: option.splits)

lemma storeOriginalY_userData:
  "userData_originalY (storeOriginalY p h r) =
     (if p = Some r \<and> \<not> truthy (userData_originalY (h r)) then Some (meshY (h r))
      else userData_originalY (h r))"
  by (simp add: storeOriginalY_def split: option.splits)

lemma storeAll_meshY [simp]: "meshY (storeAll parts h r) = meshY (h r)"
  by (simp add: storeAll_def)

lemma storeAll_userData_tracked:
  assumes "tracked parts r"
    and "baseAgrees h (head parts)" "baseAgrees h (body parts)" "baseAgrees h (weapon parts)"
  shows "userData_originalY (storeAll parts h r) = Some (meshY (h r))"
  using assms
  by (auto simp: storeAll_def storeOriginalY_userData tracked_def baseAgrees_def truthy_def
      split: option.splits)

lemma restorePart_meshY:
  "meshY (restorePart p h r) =
     (if p = Some r then (case userData_originalY (h r) of None \<Rightarrow> meshY (h r) | Some oy \<Rightarrow> oy)
      else meshY (h r))"
  by (simp add: restorePart_def setMeshY_def meshY_def split: option.splits)

lemma restoreAll_meshY_tracked:
  assumes "tracked parts r" and "userData_originalY (h r) = Some oy"
  shows "meshY (restoreAll parts h r) = oy"
  using assms by (auto simp: restoreAll_def restorePart_meshY tracked_def)

lemma lowerAll_userData [simp]:
  "userData_originalY (lowerAll cfg parts h r) = userData_originalY (h r)"
  by (simp add: lowerAll_def)

lemma maintainCrouchState_fields:
  "scale_y (enemy (maintainCrouchState cfg w)) = originalScale (state w) / crouchScale cfg"
  "vec_y (position (enemy (maintainCrouchState cfg w))) = initialPositionY cfg + crouchPositionY cfg"
  "meshes (maintainCrouchState cfg w) = lowerAll cfg (bodyParts (state w)) (meshes w)"
  by (simp_all add: maintainCrouchState_def Let_def setEnemyY_def setEnemyScaleY_def lowerAll_def)

lemma stopCrouching_fields:
  "scale_y (enemy (stopCrouching cfg w)) = originalScale (state w)"
  "vec_y (position (enemy (stopCrouching cfg w))) = initialPositionY cfg"
  "meshes (stopCrouching cfg w) = restoreAll (bodyParts (state w)) (meshes w)"
  by (simp_all add: stopCrouching_def Let_def setEnemyY_def setEnemyScaleY_def restoreAll_def)

lemma startCrouching_fields:
  "meshes (startCrouching cfg w) =
     lowerAll cfg (bodyParts (state w)) (storeAll (bodyParts (state w)) (meshes w))"
  by (simp add: startCrouching_def Let_def maintainCrouchState_fields storeAll_def)

text \<open>The three ways a call of handleCrouching can go.\<close>

lemma handleCrouching_continue:
  assumes "isCrouching (state w)" and "1 < crouchTimer (state w)"
  shows "state (handleCrouching cfg roll w) = (state w)\<lparr>crouchTimer := crouchTimer (state w) - 1\<rparr>"
    and "userData_originalY (meshes (handleCrouching cfg roll w) r) = userData_originalY (meshes w r)"
  using assms
  by (simp_all add: handleCrouching_def Let_def maintainCrouchState_frame maintainCrouchState_fields)

lemma handleCrouching_exit:
  assumes "isCrouching (state w)" and "crouchTimer (state w) \<le> 1"
  shows "\<not> isCrouching (state (handleCrouching cfg roll w))"
    and "scale_y (enemy (handleCrouching cfg roll w)) = originalScale (state w)"
    and "vec_y (position (enemy (handleCrouching cfg roll w))) = initialPositionY cfg"
    and "meshes (handleCrouching cfg roll w) =
           restoreAll (bodyParts (state w)) (lowerAll cfg (bodyParts (state w)) (meshes w))"
  using assms
  by (simp_all add: handleCrouching_def Let_def maintainCrouchState_frame
        maintainCrouchState_fields stopCrouching_frame stopCrouching_fields)

lemma handleCrouching_enter:
  assumes "\<not> isCrouching (state w)" and "roll < crouchProbability cfg"
    and "1 < crouchDuration cfg"
  shows "state (handleCrouching cfg roll w) =
           (state w)\<lparr>isCrouching := True, crouchTimer := crouchDuration cfg - 1\<rparr>"
    and "userData_originalY (meshes (handleCrouching cfg roll w) r) =
           userData_originalY (storeAll (bodyParts (state w)) (meshes w) r)"
  using assms
  by (simp_all add: handleCrouching_def Let_def maintainCrouchState_frame
        maintainCrouchState_fields startCrouching_frame startCrouching_fields)

lemma handleCrouching_enter_exit:
  assumes "\<not> isCrouching (state w)" and "roll < crouchProbability cfg"
    and "crouchDuration cfg \<le> 1"
  shows "\<not> isCrouching (state (handleCrouching cfg roll w))"
    and "scale_y (enemy (handleCrouching cfg roll w)) = originalScale (state w)"
    and "vec_y (position (enemy (handleCrouching cfg roll w))) = initialPositionY cfg"
    and "meshes (handleCrouching cfg roll w) =
           restoreAll (bodyParts (state w))
             (lowerAll cfg (bodyParts (state w))
                (lowerAll cfg (bodyParts (state w)) (storeAll (bodyParts (state w)) (meshes w))))"
  using assms
  by (simp_all add: handleCrouching_def Let_def maintainCrouchState_frame
        maintainCrouchState_fields startCrouching_frame startCrouching_fields
        stopCrouching_frame stopCrouching_fields)

lemma updateEnemyMovement_pose_part:
  "scale_y (enemy (updateEnemyMovement cfg r True w)) =
     scale_y (enemy (handleCrouching cfg (crouchRoll r) (pinStanding cfg w)))"
  "vec_y (position (enemy (updateEnemyMovement cfg r True w))) =
     vec_y (position (enemy (handleCrouching cfg (crouchRoll r) (pinStanding cfg w))))"
  "meshes (updateEnemyMovement cfg r True w) =
     meshes (handleCrouching cfg (crouchRoll r) (pinStanding cfg w))"
  "isCrouching (state (updateEnemyMovement cfg r True w)) =
     isCrouching (state (handleCrouching cfg (crouchRoll r) (pinStanding cfg w)))"
  "crouchTimer (state (updateEnemyMovement cfg r True w)) =
     crouchTimer (state (handleCrouching cfg (crouchRoll r) (pinStanding cfg w)))"
  "originalScale (state (updateEnemyMovement cfg r True w)) =
     originalScale (state (handleCrouching cfg (crouchRoll r) (pinStanding cfg w)))"
  "bodyParts (state (updateEnemyMovement cfg r True w)) =
     bodyParts (state (handleCrouching cfg (crouchRoll r) (pinStanding cfg w)))"
  by (simp_all add: updateEnemyMovement_def pinStanding_def Let_def setEnemyX_def)

lemma pinStanding_pose:
  "isCrouching (state (pinStanding cfg w)) = isCrouching (state w)"
  "crouchTimer (state (pinStanding cfg w)) = crouchTimer (state w)"
  "originalScale (state (pinStanding cfg w)) = originalScale (state w)"
  "bodyParts (state (pinStanding cfg w)) = bodyParts (state w)"
  "meshes (pinStanding cfg w) = meshes w"
  "scale_y (enemy (pinStanding cfg w)) = scale_y (enemy w)"
  by (simp_all add: pinStanding_def setEnemyY_def)

lemma tick_continue:
  assumes "isCrouching (state w)" and "1 < crouchTimer (state w)"
  shows "isCrouching (state (updateEnemyMovement cfg r True w))"
    and "crouchTimer (state (updateEnemyMovement cfg r True w)) = crouchTimer (state w) - 1"
    and "originalScale (state (updateEnemyMovement cfg r True w)) = originalScale (state w)"
    and "bodyParts (state (updateEnemyMovement cfg r True w)) = bodyParts (state w)"
    and "userData_originalY (meshes (updateEnemyMovement cfg r True w) p) =
           userData_originalY (meshes w p)"
proof -
  have pin: "pinStanding cfg w = w"
    using assms(1) by (simp add: pinStanding_def)
  note hc = handleCrouching_continue [OF assms, where cfg = cfg and roll = "crouchRoll r"]
  show "isCrouching (state (updateEnemyMovement cfg r True w))"
    and "crouchTimer (state (updateEnemyMovement cfg r True w)) = crouchTimer (state w) - 1"
    and "originalScale (state (updateEnemyMovement cfg r True w)) = originalScale (state w)"
    and "bodyParts (state (updateEnemyMovement cfg r True w)) = bodyParts (state w)"
    and "userData_originalY (meshes (updateEnemyMovement cfg r True w) p) =
           userData_originalY (meshes w p)"
    using assms(1) by (simp_all add: updateEnemyMovement_pose_part pin hc)
qed

lemma tick_exit:
  assumes "isCrouching (state w)" and "crouchTimer (state w) \<le> 1"
  shows "\<not> isCrouching (state (updateEnemyMovement cfg r True w))"
    and "scale_y (enemy (updateEnemyMovement cfg r True w)) = originalScale (state w)"
    and "vec_y (position (enemy (updateEnemyMovement cfg r True w))) = initialPositionY cfg"
    and "tracked (bodyParts (state w)) p \<Longrightarrow> userData_originalY (meshes w p) = Some oy \<Longrightarrow>
           meshY (meshes (updateEnemyMovement cfg r True w) p) = oy"
proof -
  have pin: "pinStanding cfg w = w"
    using assms(1) by (simp add: pinStanding_def)
  note hc = handleCrouching_exit [OF assms, where cfg = cfg and roll = "crouchRoll r"]
  show "\<not> isCrouching (state (updateEnemyMovement cfg r True w))"
    and "scale_y (enemy (updateEnemyMovement cfg r True w)) = originalScale (state w)"
    and "vec_y (position (enemy (updateEnemyMovement cfg r True w))) = initialPositionY cfg"
    by (simp_all add: updateEnemyMovement_pose_part pin hc)
  show "meshY (meshes (updateEnemyMovement cfg r True w) p) = oy"
    if "tracked (bodyParts (state w)) p" and "userData_originalY (meshes w p) = Some oy"
    using that by (simp add: updateEnemyMovement_pose_part pin hc restoreAll_meshY_tracked)
qed

lemma ticks_finish_crouch:
  assumes "isCrouching (state w)" and "1 \<le> crouchTimer (state w)"
    and "length rs = nat (crouchTimer (state w))"
  shows "\<not> isCrouching (state (ticks cfg rs w)) \<and>
         scale_y (enemy (ticks cfg rs w)) = originalScale (state w) \<and>
         vec_y (position (enemy (ticks cfg rs w))) = initialPositionY cfg \<and>
         (\<forall>p oy. tracked (bodyParts (state w)) p \<longrightarrow> userData_originalY (meshes w p) = Some oy \<longrightarrow>
            meshY (meshes (ticks cfg rs w) p) = oy)"
  using assms
proof (induction rs arbitrary: w)
  case Nil
  then show ?case by simp
next
  case (Cons r rs)
  show ?case
  proof (cases "crouchTimer (state w) = 1")
    case True
    with Cons.prems have "rs = []" by simp
    moreover have "crouchTimer (state w) \<le> 1" using True by simp
    ultimately show ?thesis
      using tick_exit [OF Cons.prems(1), where cfg = cfg and r = r] by simp
  next
    case False
    with Cons.prems have big: "1 < crouchTimer (state w)" by simp
    note step = tick_continue [OF Cons.prems(1) big, where cfg = cfg and r = r]
    have len: "length rs = nat (crouchTimer (state (updateEnemyMovement cfg r True w)))"
      using Cons.prems(3) big by (simp add: step(2))
    have pos: "1 \<le> crouchTimer (state (updateEnemyMovement cfg r True w))"
      using big by (simp add: step(2))
    from Cons.IH [OF step(1) pos len] show ?thesis
      by (simp add: step)
  qed
qed

lemma ticks_still_crouching:
  assumes "isCrouching (state w)" and "length rs < nat (crouchTimer (state w))"
  shows "isCrouching (state (ticks cfg rs w))"
  using assms
proof (induction rs arbitrary: w)
  case Nil
  then show ?case by simp
next
  case (Cons r rs)
  from Cons.prems have big: "1 < crouchTimer (state w)" by simp
  note step = tick_continue [OF Cons.prems(1) big, where cfg = cfg and r = r]
  have "length rs < nat (crouchTimer (state (updateEnemyMovement cfg r True w)))"
    using Cons.prems(2) by (simp add: step(2))
  from Cons.IH [OF step(1) this] show ?case by simp
qed

lemma tick_enter:
  assumes "\<not> isCrouching (state w)" and "crouchRoll r < crouchProbability cfg"
    and "1 < crouchDuration cfg"
  shows "isCrouching (state (updateEnemyMovement cfg r True w))"
    and "crouchTimer (state (updateEnemyMovement cfg r True w)) = crouchDuration cfg - 1"
    and "originalScale (state (updateEnemyMovement cfg r True w)) = originalScale (state w)"
    and "bodyParts (state (updateEnemyMovement cfg r True w)) = bodyParts (state w)"
    and "userData_originalY (meshes (updateEnemyMovement cfg r True w) p) =
           userData_originalY (storeAll (bodyParts (state w)) (meshes w) p)"
proof -
  have standing: "\<not> isCrouching (state (pinStanding cfg w))"
    using assms(1) by (simp add: pinStanding_pose)
  note hc = handleCrouching_enter [OF standing assms(2,3)]
  show "isCrouching (state (updateEnemyMovement cfg r True w))"
    and "crouchTimer (state (updateEnemyMovement cfg r True w)) = crouchDuration cfg - 1"
    and "originalScale (state (updateEnemyMovement cfg r True w)) = originalScale (state w)"
    and "bodyParts (state (updateEnemyMovement cfg r True w)) = bodyParts (state w)"
    and "userData_originalY (meshes (updateEnemyMovement cfg r True w) p) =
           userData_originalY (storeAll (bodyParts (state w)) (meshes w) p)"
    by (simp_all add: updateEnemyMovement_pose_part hc pinStanding_pose)
qed

lemma tick_enter_exit:
  assumes "\<not> isCrouching (state w)" and "crouchRoll r < crouchProbability cfg"
    and "crouchDuration cfg \<le> 1"
  shows "\<not> isCrouching (state (updateEnemyMovement cfg r True w))"
    and "scale_y (enemy (updateEnemyMovement cfg r True w)) = originalScale (state w)"
    and "vec_y (position (enemy (updateEnemyMovement cfg r True w))) = initialPositionY cfg"
    and "tracked (bodyParts (state w)) p \<Longrightarrow>
           userData_originalY (storeAll (bodyParts (state w)) (meshes w) p) = Some oy \<Longrightarrow>
           meshY (meshes (updateEnemyMovement cfg r True w) p) = oy"
proof -
  have standing: "\<not> isCrouching (state (pinStanding cfg w))"
    using assms(1) by (simp add: pinStanding_pose)
  note hc = handleCrouching_enter_exit [OF standing assms(2,3)]
  show "\<not> isCrouching (state (updateEnemyMovement cfg r True w))"
    and "scale_y (enemy (updateEnemyMovement cfg r True w)) = originalScale (state w)"
    and "vec_y (position (enemy (updateEnemyMovement cfg r True w))) = initialPositionY cfg"
    by (simp_all add: updateEnemyMovement_pose_part hc pinStanding_pose)
  show "meshY (meshes (updateEnemyMovement cfg r True w) p) = oy"
    if "tracked (bodyParts (state w)) p"
      and "userData_originalY (storeAll (bodyParts (state w)) (meshes w) p) = Some oy"
    using that
    by (simp add: updateEnemyMovement_pose_part hc pinStanding_pose restoreAll_meshY_tracked)
qed

subsection \<open>Paused ticks\<close>

lemma updateEnemyMovement_crouch_part:
  "enemyGiven \<Longrightarrow> isPaused (state w) \<Longrightarrow>
     enemy (updateEnemyMovement cfg r enemyGiven w) =
       enemy (handleCrouching cfg (crouchRoll r) (pinStanding cfg w)) \<and>
     meshes (updateEnemyMovement cfg r enemyGiven w) =
       meshes (handleCrouching cfg (crouchRoll r) (pinStanding cfg w)) \<and>
     isCrouching (state (updateEnemyMovement cfg r enemyGiven w)) =
       isCrouching (state (handleCrouching cfg (crouchRoll r) (pinStanding cfg w))) \<and>
     crouchTimer (state (updateEnemyMovement cfg r enemyGiven w)) =
       crouchTimer (state (handleCrouching cfg (crouchRoll r) (pinStanding cfg w)))"
  by (simp add: updateEnemyMovement_def pinStanding_def Let_def handleCrouching_frame)

lemma updateEnemyMovement_pause_part:
  "enemyGiven \<Longrightarrow> isPaused (state w) \<Longrightarrow>
     pauseTimer (state (updateEnemyMovement cfg r enemyGiven w)) = pauseTimer (state w) - 1 \<and>
     isPaused (state (updateEnemyMovement cfg r enemyGiven w)) = (0 < pauseTimer (state w) - 1)"
  by (auto simp: updateEnemyMovement_def Let_def handleCrouching_frame)

text \<open>
  While the module runs with a pause duration of at least one frame, a paused enemy has
  at least one frame left on its timer.
\<close>

lemma paused_timer_positive:
  assumes "1 \<le> pauseDuration cfg" and "isPaused (state w) \<longrightarrow> 1 \<le> pauseTimer (state w)"
  shows "isPaused (state (updateEnemyMovement cfg r g w)) \<longrightarrow>
           1 \<le> pauseTimer (state (updateEnemyMovement cfg r g w))"
  using assms
  by (auto simp: updateEnemyMovement_def Let_def handleCrouching_frame setEnemyX_def)

text \<open>
  C4. On a tick entered with \<open>isPaused\<close> true, \<open>positionX\<close> and \<open>direction\<close> keep
  their values, \<open>pauseTimer\<close> goes down by exactly one, and \<open>isPaused\<close> is false
  afterwards exactly when the timer has run out (it is then exactly zero, since a paused
  enemy has at least one frame left). The crouch evaluation runs on such a tick all the
  same, and before the pause check: the enemy object, the meshes and the crouch fields
  of the state are those that \<open>handleCrouching\<close> produces from the state of the enemy
  put back at standing height. So on a paused tick a crouch starts when the crouch roll
  succeeds, a crouch in progress counts one frame down, and a crouch on its last frame
  stops.
\<close>

theorem paused_tick:
  assumes "isPaused (state w)"
  shows "vec_x (position (enemy (updateEnemyMovement cfg r True w))) = vec_x (position (enemy w)) \<and>
         direction (state (updateEnemyMovement cfg r True w)) = direction (state w) \<and>
         pauseTimer (state (updateEnemyMovement cfg r True w)) = pauseTimer (state w) - 1 \<and>
         (\<not> isPaused (state (updateEnemyMovement cfg r True w)) \<longleftrightarrow>
            pauseTimer (state (updateEnemyMovement cfg r True w)) \<le> 0) \<and>
         (1 \<le> pauseTimer (state w) \<longrightarrow>
            (\<not> isPaused (state (updateEnemyMovement cfg r True w)) \<longleftrightarrow>
               pauseTimer (state (updateEnemyMovement cfg r True w)) = 0)) \<and>
         enemy (updateEnemyMovement cfg r True w) =
           enemy (handleCrouching cfg (crouchRoll r) (pinStanding cfg w)) \<and>
         meshes (updateEnemyMovement cfg r True w) =
           meshes (handleCrouching cfg (crouchRoll r) (pinStanding cfg w)) \<and>
         isCrouching (state (updateEnemyMovement cfg r True w)) =
           isCrouching (state (handleCrouching cfg (crouchRoll r) (pinStanding cfg w))) \<and>
         crouchTimer (state (updateEnemyMovement cfg r True w)) =
           crouchTimer (state (handleCrouching cfg (crouchRoll r) (pinStanding cfg w))) \<and>
         (\<not> isCrouching (state w) \<and> crouchRoll r < crouchProbability cfg \<and>
          1 < crouchDuration cfg \<longrightarrow>
            isCrouching (state (updateEnemyMovement cfg r True w)) \<and>
            crouchTimer (state (updateEnemyMovement cfg r True w)) = crouchDuration cfg - 1) \<and>
         (isCrouching (state w) \<and> 1 < crouchTimer (state w) \<longrightarrow>
            isCrouching (state (updateEnemyMovement cfg r True w)) \<and>
            crouchTimer (state (updateEnemyMovement cfg r True w)) = crouchTimer (state w) - 1) \<and>
         (isCrouching (state w) \<and> crouchTimer (state w) \<le> 1 \<longrightarrow>
            \<not> isCrouching (state (updateEnemyMovement cfg r True w)) \<and>
            scale_y (enemy (updateEnemyMovement cfg r True w)) = originalScale (state w))"
proof -
  have notMoving: "\<not> movingTick cfg r True w"
    using assms by (simp add: movingTick_def)
  have pos: "vec_x (position (enemy (updateEnemyMovement cfg r True w))) =
               vec_x (position (enemy w))"
    using notMoving by (simp add: updateEnemyMovement_x)
  have dir: "direction (state (updateEnemyMovement cfg r True w)) = direction (state w)"
    using notMoving by (simp add: updateEnemyMovement_direction)
  have pause: "pauseTimer (state (updateEnemyMovement cfg r True w)) = pauseTimer (state w) - 1"
      "isPaused (state (updateEnemyMovement cfg r True w)) = (0 < pauseTimer (state w) - 1)"
    using updateEnemyMovement_pause_part [of True w cfg r] assms by simp_all
  have run: "\<not> isPaused (state (updateEnemyMovement cfg r True w)) \<longleftrightarrow>
               pauseTimer (state (updateEnemyMovement cfg r True w)) \<le> 0"
    unfolding pause by arith
  have zero: "1 \<le> pauseTimer (state w) \<longrightarrow>
               (\<not> isPaused (state (updateEnemyMovement cfg r True w)) \<longleftrightarrow>
                  pauseTimer (state (updateEnemyMovement cfg r True w)) = 0)"
    unfolding pause by arith
  have start: "\<not> isCrouching (state w) \<and> crouchRoll r < crouchProbability cfg \<and>
          1 < crouchDuration cfg \<longrightarrow>
            isCrouching (state (updateEnemyMovement cfg r True w)) \<and>
            crouchTimer (state (updateEnemyMovement cfg r True w)) = crouchDuration cfg - 1"
    using tick_enter(1,2) [of w r cfg] by blast
  have maintain: "isCrouching (state w) \<and> 1 < crouchTimer (state w) \<longrightarrow>
            isCrouching (state (updateEnemyMovement cfg r True w)) \<and>
            crouchTimer (state (updateEnemyMovement cfg r True w)) = crouchTimer (state w) - 1"
    using tick_continue(1,2) [of w cfg r] by blast
  have stop: "isCrouching (state w) \<and> crouchTimer (state w) \<le> 1 \<longrightarrow>
            \<not> isCrouching (state (updateEnemyMovement cfg r True w)) \<and>
            scale_y (enemy (updateEnemyMovement cfg r True w)) = originalScale (state w)"
    using tick_exit(1,2) [of w cfg r] by blast
  from updateEnemyMovement_crouch_part [of True w cfg r] assms
  have crouch: "enemy (updateEnemyMovement cfg r True w) =
           enemy (handleCrouching cfg (crouchRoll r) (pinStanding cfg w))"
    "meshes (updateEnemyMovement cfg r True w) =
           meshes (handleCrouching cfg (crouchRoll r) (pinStanding cfg w))"
    "isCrouching (state (updateEnemyMovement cfg r True w)) =
           isCrouching (state (handleCrouching cfg (crouchRoll r) (pinStanding cfg w)))"
    "crouchTimer (state (updateEnemyMovement cfg r True w)) =
           crouchTimer (state (handleCrouching cfg (crouchRoll r) (pinStanding cfg w)))"
    by simp_all
  show ?thesis
    by (intro conjI pos dir pause(1) run zero crouch start maintain stop)
qed

text \<open>
  The instances, all paused. The example scene with one frame of pause left, on a tick
  whose crouch roll succeeds: the enemy stays at 30 heading left, the pause ends with
  the timer at zero, and the crouch has started, with the head down at \<open>-2\<close>. The
  crouching enemy with 59 frames of crouch left: one frame is counted down. The
  crouching enemy on its last frame of crouch: it stands up, still paused.
\<close>

theorem paused_tick_witness:
  "isPaused (state pausedWorld) \<and> 1 \<le> pauseTimer (state pausedWorld) \<and>
   vec_x (position (enemy (updateEnemyMovement defaultEnemyConfig crouchNow True pausedWorld))) = 30 \<and>
   direction (state (updateEnemyMovement defaultEnemyConfig crouchNow True pausedWorld)) = - 1 \<and>
   pauseTimer (state (updateEnemyMovement defaultEnemyConfig crouchNow True pausedWorld)) = 0 \<and>
   \<not> isPaused (state (updateEnemyMovement defaultEnemyConfig crouchNow True pausedWorld)) \<and>
   isCrouching (state (updateEnemyMovement defaultEnemyConfig crouchNow True pausedWorld)) \<and>
   crouchTimer (state (updateEnemyMovement defaultEnemyConfig crouchNow True pausedWorld)) = 59 \<and>
   meshY (meshes (updateEnemyMovement defaultEnemyConfig crouchNow True pausedWorld) 0) = - 2 \<and>
   isPaused (state busyWorld) \<and> isCrouching (state busyWorld) \<and>
   isCrouching (state (updateEnemyMovement defaultEnemyConfig noRolls True busyWorld)) \<and>
   crouchTimer (state (updateEnemyMovement defaultEnemyConfig noRolls True busyWorld)) = 58 \<and>
   pauseTimer (state (updateEnemyMovement defaultEnemyConfig noRolls True busyWorld)) = 59 \<and>
   isPaused (state (updateEnemyMovement defaultEnemyConfig noRolls True busyWorld)) \<and>
   isPaused (state lastFrameWorld) \<and> isCrouching (state lastFrameWorld) \<and>
   \<not> isCrouching (state (updateEnemyMovement defaultEnemyConfig noRolls True lastFrameWorld)) \<and>
   isPaused (state (updateEnemyMovement defaultEnemyConfig noRolls True lastFrameWorld))"
proof -
  have p: "isPaused (state pausedWorld)" "1 \<le> pauseTimer (state pausedWorld)"
    by code_simp+
  have q: "pauseTimer (state pausedWorld) = 1" "vec_x (position (enemy pausedWorld)) = 30"
    "direction (state pausedWorld) = - 1" "\<not> isCrouching (state pausedWorld)"
    "crouchRoll crouchNow < crouchProbability defaultEnemyConfig"
    "1 < crouchDuration defaultEnemyConfig" "crouchDuration defaultEnemyConfig - 1 = 59"
    by code_simp+
  have c: "isCrouching (state (handleCrouching defaultEnemyConfig (crouchRoll crouchNow)
              (pinStanding defaultEnemyConfig pausedWorld)))"
    "crouchTimer (state (handleCrouching defaultEnemyConfig (crouchRoll crouchNow)
              (pinStanding defaultEnemyConfig pausedWorld))) = 59"
    "meshY (meshes (handleCrouching defaultEnemyConfig (crouchRoll crouchNow)
              (pinStanding defaultEnemyConfig pausedWorld)) 0) = - 2"
    by code_simp+
  have b: "isPaused (state busyWorld)" "isCrouching (state busyWorld)"
    "crouchTimer (state busyWorld) = 59" "pauseTimer (state busyWorld) = 60"
    by code_simp+
  have l: "isPaused (state lastFrameWorld)" "isCrouching (state lastFrameWorld)"
    "crouchTimer (state lastFrameWorld) = 1" "pauseTimer (state lastFrameWorld) = 60"
    by code_simp+
  have first: "vec_x (position (enemy (updateEnemyMovement defaultEnemyConfig crouchNow True pausedWorld))) = 30"
    "direction (state (updateEnemyMovement defaultEnemyConfig crouchNow True pausedWorld)) = - 1"
    "pauseTimer (state (updateEnemyMovement defaultEnemyConfig crouchNow True pausedWorld)) = 0"
    "\<not> isPaused (state (updateEnemyMovement defaultEnemyConfig crouchNow True pausedWorld))"
    "isCrouching (state (updateEnemyMovement defaultEnemyConfig crouchNow True pausedWorld))"
    "crouchTimer (state (updateEnemyMovement defaultEnemyConfig crouchNow True pausedWorld)) = 59"
    "meshY (meshes (updateEnemyMovement defaultEnemyConfig crouchNow True pausedWorld) 0) = - 2"
    using paused_tick [OF p(1), of defaultEnemyConfig crouchNow] p q c
    by (simp_all add: handleCrouching_frame pinStanding_frame)
  have second: "isCrouching (state (updateEnemyMovement defaultEnemyConfig noRolls True busyWorld))"
    "crouchTimer (state (updateEnemyMovement defaultEnemyConfig noRolls True busyWorld)) = 58"
    "pauseTimer (state (updateEnemyMovement defaultEnemyConfig noRolls True busyWorld)) = 59"
    "isPaused (state (updateEnemyMovement defaultEnemyConfig noRolls True busyWorld))"
    using paused_tick [OF b(1), of defaultEnemyConfig noRolls] b by auto
  have third: "\<not> isCrouching (state (updateEnemyMovement defaultEnemyConfig noRolls True lastFrameWorld))"
    "isPaused (state (updateEnemyMovement defaultEnemyConfig noRolls True lastFrameWorld))"
    using paused_tick [OF l(1), of defaultEnemyConfig noRolls] l by auto
  from p b(1,2) l(1,2) first second third show ?thesis by simp
qed

subsection \<open>The crouch round trip\<close>

text \<open>What a whole crouch restores, whatever was recorded before.\<close>

lemma crouch_restores_recorded:
  assumes "\<not> isCrouching (state w)" and "crouchRoll r < crouchProbability cfg"
    and "1 \<le> crouchDuration cfg" and "Suc (length rs) = nat (crouchDuration cfg)"
  shows "\<not> isCrouching (state (ticks cfg (r # rs) w)) \<and>
         scale_y (enemy (ticks cfg (r # rs) w)) = originalScale (state w) \<and>
         vec_y (position (enemy (ticks cfg (r # rs) w))) = initialPositionY cfg \<and>
         (\<forall>p oy. tracked (bodyParts (state w)) p \<longrightarrow>
            userData_originalY (storeAll (bodyParts (state w)) (meshes w) p) = Some oy \<longrightarrow>
            meshY (meshes (ticks cfg (r # rs) w) p) = oy)"
proof (cases "crouchDuration cfg = 1")
  case True
  with assms(4) have "rs = []" by simp
  moreover have "crouchDuration cfg \<le> 1" using True by simp
  ultimately show ?thesis
    using tick_enter_exit [OF assms(1,2)] by simp
next
  case False
  with assms(3) have big: "1 < crouchDuration cfg" by simp
  note enter = tick_enter [OF assms(1,2) big]
  have len: "length rs = nat (crouchTimer (state (updateEnemyMovement cfg r True w)))"
    using assms(4) big by (simp add: enter(2))
  have pos: "1 \<le> crouchTimer (state (updateEnemyMovement cfg r True w))"
    using big by (simp add: enter(2))
  from ticks_finish_crouch [OF enter(1) pos len] show ?thesis
    by (simp add: enter)
qed

text \<open>
  C5 (as amended). Take a standing pose in which the recorded bases are the current
  values: \<open>enemy.scale.y\<close> is the recorded \<open>originalScale\<close>, and the recorded base
  offset of each tracked part (head, body, weapon), where one is recorded and not zero,
  is the part's current offset. A crouch entered on a tick whose crouch roll succeeds
  lasts \<open>crouchDuration\<close> ticks: the enemy is crouching after each of the ticks before
  the last, and after the last it stands again, with the vertical scale and the vertical
  offset of every tracked part exactly at the values they had before the crouch, and
  \<open>position.y\<close> at the standing value \<open>initialPositionY\<close>.
\<close>

theorem crouch_round_trip:
  assumes "\<not> isCrouching (state w)" and "poseConsistent w"
    and "crouchRoll r < crouchProbability cfg"
    and "1 \<le> crouchDuration cfg" and "Suc (length rs) = nat (crouchDuration cfg)"
  shows "\<not> isCrouching (state (ticks cfg (r # rs) w)) \<and>
         (\<forall>k. 0 < k \<and> k \<le> length rs \<longrightarrow> isCrouching (state (ticks cfg (take k (r # rs)) w))) \<and>
         scale_y (enemy (ticks cfg (r # rs) w)) = scale_y (enemy w) \<and>
         vec_y (position (enemy (ticks cfg (r # rs) w))) = initialPositionY cfg \<and>
         (\<forall>p. tracked (bodyParts (state w)) p \<longrightarrow>
            meshY (meshes (ticks cfg (r # rs) w) p) = meshY (meshes w p))"
proof -
  note all = crouch_restores_recorded [OF assms(1,3,4,5)]
  have stored: "userData_originalY (storeAll (bodyParts (state w)) (meshes w) p) =
                  Some (meshY (meshes w p))"
    if "tracked (bodyParts (state w)) p" for p
    using that assms(2) by (simp add: storeAll_userData_tracked poseConsistent_def)
  have during: "isCrouching (state (ticks cfg (take k (r # rs)) w))"
    if "0 < k" and "k \<le> length rs" for k
  proof -
    from that obtain j where k: "k = Suc j" by (cases k) auto
    from that assms(5) have big: "1 < crouchDuration cfg" by simp
    note enter = tick_enter [OF assms(1,3) big]
    have "length (take j rs) < nat (crouchTimer (state (updateEnemyMovement cfg r True w)))"
      using that assms(5) k by (simp add: enter(2))
    from ticks_still_crouching [OF enter(1) this] show ?thesis
      by (simp add: k)
  qed
  show ?thesis
    using all stored during assms(2) by (simp add: poseConsistent_def)
qed

text \<open>The instance: the example scene, through a crouch of 60 ticks.\<close>

theorem crouch_round_trip_witness:
  "\<not> isCrouching (state exampleWorld) \<and> poseConsistent exampleWorld \<and>
   crouchRoll crouchNow < crouchProbability defaultEnemyConfig \<and>
   1 \<le> crouchDuration defaultEnemyConfig \<and>
   Suc (length (replicate 59 noRolls)) = nat (crouchDuration defaultEnemyConfig) \<and>
   tracked (bodyParts (state exampleWorld)) 0 \<and> tracked (bodyParts (state exampleWorld)) 1 \<and>
   tracked (bodyParts (state exampleWorld)) 2 \<and>
   \<not> isCrouching (state (ticks defaultEnemyConfig (crouchNow # replicate 59 noRolls) exampleWorld)) \<and>
   isCrouching (state (ticks defaultEnemyConfig (take 59 (crouchNow # replicate 59 noRolls)) exampleWorld)) \<and>
   scale_y (enemy (ticks defaultEnemyConfig (crouchNow # replicate 59 noRolls) exampleWorld)) = 1 \<and>
   vec_y (position (enemy (ticks defaultEnemyConfig (crouchNow # replicate 59 noRolls) exampleWorld))) = 2.5 \<and>
   meshY (meshes (ticks defaultEnemyConfig (crouchNow # replicate 59 noRolls) exampleWorld) 0) = 8 \<and>
   meshY (meshes (ticks defaultEnemyConfig (crouchNow # replicate 59 noRolls) exampleWorld) 1) = 3 \<and>
   meshY (meshes (ticks defaultEnemyConfig (crouchNow # replicate 59 noRolls) exampleWorld) 2) = 2"
proof -
  have h: "\<not> isCrouching (state exampleWorld)" "poseConsistent exampleWorld"
    "crouchRoll crouchNow < crouchProbability defaultEnemyConfig"
    "1 \<le> crouchDuration defaultEnemyConfig"
    by code_simp+
  have len: "Suc (length (replicate 59 noRolls)) = nat (crouchDuration defaultEnemyConfig)"
    by (simp add: defaultEnemyConfig_def)
  have tr: "tracked (bodyParts (state exampleWorld)) 0" "tracked (bodyParts (state exampleWorld)) 1"
    "tracked (bodyParts (state exampleWorld)) 2"
    by code_simp+
  have before: "scale_y (enemy exampleWorld) = 1" "initialPositionY defaultEnemyConfig = 2.5"
    "meshY (meshes exampleWorld 0) = 8" "meshY (meshes exampleWorld 1) = 3"
    "meshY (meshes exampleWorld 2) = 2"
    by code_simp+
  have k: "0 < (59::nat) \<and> 59 \<le> length (replicate 59 noRolls)"
    by simp
  from crouch_round_trip [OF h len] h len tr before k show ?thesis
    by (metis (no_types))
qed

text \<open>
  Without the condition on the recorded bases the round trip is not exact. In the scene
  below the enemy has scale 2 while \<open>originalScale\<close> is 1, and the head stands at 8 with
  7 recorded as its base, from an earlier crouch. After the 60 ticks of a crouch the
  scale is 1 and the head is at 7: the values recorded, not the values before the crouch.
\<close>

theorem crouch_round_trip_counterexample:
  "\<not> isCrouching (state staleWorld) \<and>
   tracked (bodyParts (state staleWorld)) 0 \<and>
   scale_y (enemy staleWorld) = 2 \<and> meshY (meshes staleWorld 0) = 8 \<and>
   \<not> isCrouching (state (ticks defaultEnemyConfig (crouchNow # replicate 59 noRolls) staleWorld)) \<and>
   scale_y (enemy (ticks defaultEnemyConfig (crouchNow # replicate 59 noRolls) staleWorld)) = 1 \<and>
   meshY (meshes (ticks defaultEnemyConfig (crouchNow # replicate 59 noRolls) staleWorld) 0) = 7 \<and>
   scale_y (enemy (ticks defaultEnemyConfig (crouchNow # replicate 59 noRolls) staleWorld)) \<noteq>
     scale_y (enemy staleWorld) \<and>
   meshY (meshes (ticks defaultEnemyConfig (crouchNow # replicate 59 noRolls) staleWorld) 0) \<noteq>
     meshY (meshes staleWorld 0)"
proof -
  have h: "\<not> isCrouching (state staleWorld)"
    "crouchRoll crouchNow < crouchProbability defaultEnemyConfig"
    "1 \<le> crouchDuration defaultEnemyConfig"
    by code_simp+
  have len: "Suc (length (replicate 59 noRolls)) = nat (crouchDuration defaultEnemyConfig)"
    by (simp add: defaultEnemyConfig_def)
  have before: "tracked (bodyParts (state staleWorld)) 0"
    "scale_y (enemy staleWorld) = 2" "meshY (meshes staleWorld 0) = 8"
    "originalScale (state staleWorld) = 1"
    "userData_originalY (storeAll (bodyParts (state staleWorld)) (meshes staleWorld) 0) = Some 7"
    by code_simp+
  from crouch_restores_recorded [OF h len] before
  have after: "\<not> isCrouching (state (ticks defaultEnemyConfig (crouchNow # replicate 59 noRolls) staleWorld))"
    "scale_y (enemy (ticks defaultEnemyConfig (crouchNow # replicate 59 noRolls) staleWorld)) = 1"
    "meshY (meshes (ticks defaultEnemyConfig (crouchNow # replicate 59 noRolls) staleWorld) 0) = 7"
    by (metis (no_types))+
  from h(1) before after show ?thesis by simp
qed

section \<open>Properties of the fire origin and height arbitrator\<close>

text \<open>
  C2. \<open>canFireAtHeight\<close> takes a height as high exactly when it is at least
  \<open>highThreshold\<close>. The first call ever returns true and records the class and the time.
  A call of the class recorded last returns true and records the time. A call of the
  other class returns true exactly when \<open>now - lastShotTime \<ge> shotCooldown\<close>; it then
  records the class and the time, and otherwise it returns false and leaves the state, with
  \<open>lastShotHeight\<close> and \<open>lastShotTime\<close>, as it was.
\<close>

theorem canFireAtHeight_gate:
  "(lastShotHeight s = None \<longrightarrow>
      canFireAtHeight cfg now height s =
        (s\<lparr>lastShotHeight := Some (height \<ge> highThreshold s), lastShotTime := now\<rparr>, True)) \<and>
   (lastShotHeight s = Some (height \<ge> highThreshold s) \<longrightarrow>
      canFireAtHeight cfg now height s = (s\<lparr>lastShotTime := now\<rparr>, True)) \<and>
   (lastShotHeight s = Some (\<not> height \<ge> highThreshold s) \<longrightarrow>
      (snd (canFireAtHeight cfg now height s) \<longleftrightarrow> now - lastShotTime s \<ge> shotCooldown cfg) \<and>
      (snd (canFireAtHeight cfg now height s) \<longrightarrow>
         fst (canFireAtHeight cfg now height s) =
           s\<lparr>lastShotHeight := Some (height \<ge> highThreshold s), lastShotTime := now\<rparr>) \<and>
      (\<not> snd (canFireAtHeight cfg now height s) \<longrightarrow>
         fst (canFireAtHeight cfg now height s) = s))"
  by (auto simp: canFireAtHeight_def Let_def)

text \<open>
  The instance: a first, high shot at time 0; a second high shot at 100; a low shot at
  500, refused with the state untouched; and the same low shot at 1100, one cooldown
  after the last high shot, allowed.
\<close>

theorem canFireAtHeight_gate_witness:
  "lastShotHeight initialBulletOriginState = None \<and>
   canFireAtHeight defaultBulletOriginConfig 0 5 initialBulletOriginState =
     (initialBulletOriginState\<lparr>lastShotHeight := Some True, lastShotTime := 0\<rparr>, True) \<and>
   canFireAtHeight defaultBulletOriginConfig 100 4
       (initialBulletOriginState\<lparr>lastShotHeight := Some True, lastShotTime := 0\<rparr>) =
     (initialBulletOriginState\<lparr>lastShotHeight := Some True, lastShotTime := 100\<rparr>, True) \<and>
   canFireAtHeight defaultBulletOriginConfig 500 1
       (initialBulletOriginState\<lparr>lastShotHeight := Some True, lastShotTime := 100\<rparr>) =
     (initialBulletOriginState\<lparr>lastShotHeight := Some True, lastShotTime := 100\<rparr>, False) \<and>
   canFireAtHeight defaultBulletOriginConfig 1100 1
       (initialBulletOriginState\<lparr>lastShotHeight := Some True, lastShotTime := 100\<rparr>) =
     (initialBulletOriginState\<lparr>lastShotHeight := Some False, lastShotTime := 1100\<rparr>, True)"
proof -
  let ?s1 = "initialBulletOriginState\<lparr>lastShotHeight := Some True, lastShotTime := 0\<rparr>"
  let ?s2 = "initialBulletOriginState\<lparr>lastShotHeight := Some True, lastShotTime := 100\<rparr>"
  have first: "lastShotHeight initialBulletOriginState = None"
    and high: "(5::real) \<ge> highThreshold initialBulletOriginState"
    by (simp_all add: initialBulletOriginState_def)
  have same: "lastShotHeight ?s1 = Some ((4::real) \<ge> highThreshold ?s1)"
    by (simp add: initialBulletOriginState_def)
  have other: "lastShotHeight ?s2 = Some (\<not> (1::real) \<ge> highThreshold ?s2)"
    by (simp add: initialBulletOriginState_def)
  have early: "\<not> 500 - lastShotTime ?s2 \<ge> shotCooldown defaultBulletOriginConfig"
    and late: "1100 - lastShotTime ?s2 \<ge> shotCooldown defaultBulletOriginConfig"
    by (simp_all add: defaultBulletOriginConfig_def)
  have low: "\<not> (1::real) \<ge> highThreshold ?s2"
    by (simp add: initialBulletOriginState_def)
  have a: "canFireAtHeight defaultBulletOriginConfig 0 5 initialBulletOriginState =
             (?s1, True)"
    using canFireAtHeight_gate [of initialBulletOriginState defaultBulletOriginConfig 0 5]
      first high by simp
  have b: "canFireAtHeight defaultBulletOriginConfig 100 4 ?s1 = (?s2, True)"
    using canFireAtHeight_gate [of ?s1 defaultBulletOriginConfig 100 4] same by simp
  have c: "canFireAtHeight defaultBulletOriginConfig 500 1 ?s2 = (?s2, False)"
    using canFireAtHeight_gate [of ?s2 defaultBulletOriginConfig 500 1] other early
    by (simp add: prod_eq_iff)
  have d: "canFireAtHeight defaultBulletOriginConfig 1100 1 ?s2 =
             (initialBulletOriginState\<lparr>lastShotHeight := Some False, lastShotTime := 1100\<rparr>, True)"
    using canFireAtHeight_gate [of ?s2 defaultBulletOriginConfig 1100 1] other late low
    by (simp add: prod_eq_iff)
  from first a b c d show ?thesis by simp
qed

text \<open>
  C6. With no enemy in the scene, \<open>updateBulletOriginPosition\<close> returns the cached
  \<open>lastKnownPosition\<close> and leaves the state as it was; the model has no failing branch
  because the source has none. With an enemy, the position it returns is the one it
  stores as \<open>lastKnownPosition\<close>. So a call without an enemy that follows a call with
  one returns exactly the result of that earlier call, and keeps it cached.
\<close>

theorem updateBulletOriginPosition_fallback:
  "(scene_enemy scene = None \<longrightarrow>
      updateBulletOriginPosition cfg scene s = (s, lastKnownPosition s)) \<and>
   (scene_enemy scene \<noteq> None \<longrightarrow>
      lastKnownPosition (fst (updateBulletOriginPosition cfg scene s)) =
        snd (updateBulletOriginPosition cfg scene s)) \<and>
   (scene_enemy scene \<noteq> None \<and> scene_enemy scene' = None \<longrightarrow>
      snd (updateBulletOriginPosition cfg' scene' (fst (updateBulletOriginPosition cfg scene s))) =
        snd (updateBulletOriginPosition cfg scene s) \<and>
      fst (updateBulletOriginPosition cfg' scene' (fst (updateBulletOriginPosition cfg scene s))) =
        fst (updateBulletOriginPosition cfg scene s))"
  by (auto simp: updateBulletOriginPosition_def Let_def split: option.splits)

text \<open>
  The instance: the enemy stands at \<open>(30, 2.5, 0)\<close>, the origin is \<open>(18.5, 10, 0)\<close>;
  the enemy is then gone and the same origin comes back.
\<close>

theorem updateBulletOriginPosition_fallback_witness:
  "scene_enemy standingScene \<noteq> None \<and> scene_enemy noEnemyScene = None \<and>
   updateBulletOriginPosition defaultBulletOriginConfig noEnemyScene initialBulletOriginState =
     (initialBulletOriginState, \<lparr>vec_x = 0, vec_y = 0, vec_z = 0\<rparr>) \<and>
   snd (updateBulletOriginPosition defaultBulletOriginConfig standingScene
          initialBulletOriginState) = \<lparr>vec_x = 18.5, vec_y = 10, vec_z = 0\<rparr> \<and>
   lastKnownPosition (fst (updateBulletOriginPosition defaultBulletOriginConfig standingScene
          initialBulletOriginState)) = \<lparr>vec_x = 18.5, vec_y = 10, vec_z = 0\<rparr> \<and>
   snd (updateBulletOriginPosition defaultBulletOriginConfig noEnemyScene
          (fst (updateBulletOriginPosition defaultBulletOriginConfig standingScene
                  initialBulletOriginState))) = \<lparr>vec_x = 18.5, vec_y = 10, vec_z = 0\<rparr>"
proof -
  have there: "scene_enemy standingScene \<noteq> None" and gone: "scene_enemy noEnemyScene = None"
    by (simp_all add: standingScene_def noEnemyScene_def)
  have cached: "lastKnownPosition initialBulletOriginState = \<lparr>vec_x = 0, vec_y = 0, vec_z = 0\<rparr>"
    by (simp add: initialBulletOriginState_def)
  have origin: "snd (updateBulletOriginPosition defaultBulletOriginConfig standingScene
                       initialBulletOriginState) = \<lparr>vec_x = 18.5, vec_y = 10, vec_z = 0\<rparr>"
    by (simp add: updateBulletOriginPosition_def standingScene_def
          defaultBulletOriginConfig_def Let_def)
  from updateBulletOriginPosition_fallback [of noEnemyScene defaultBulletOriginConfig
      initialBulletOriginState noEnemyScene defaultBulletOriginConfig]
    updateBulletOriginPosition_fallback [of standingScene defaultBulletOriginConfig
      initialBulletOriginState noEnemyScene defaultBulletOriginConfig]
    there gone cached origin
  show ?thesis by simp
qed

section \<open>Reset at the start of a round\<close>

text \<open>
  The claim that a reset puts every field back fails for the locomotion fields: the
  module has no reset, and its initialisation keeps the flags and timers. In the scene
  below the enemy is crouching and paused with both timers running, and after
  \<open>initEnemyMovement\<close> it still is, while the state literal has both flags false and
  both timers at zero.
\<close>

theorem initEnemyMovement_keeps_timers_counterexample:
  "isCrouching (state (initEnemyMovement defaultEnemyConfig True busyWorld)) \<and>
   crouchTimer (state (initEnemyMovement defaultEnemyConfig True busyWorld)) = 59 \<and>
   isPaused (state (initEnemyMovement defaultEnemyConfig True busyWorld)) \<and>
   pauseTimer (state (initEnemyMovement defaultEnemyConfig True busyWorld)) = 60 \<and>
   \<not> isCrouching initialEnemyState \<and> crouchTimer initialEnemyState = 0 \<and>
   \<not> isPaused initialEnemyState \<and> pauseTimer initialEnemyState = 0"
  by code_simp

text \<open>
  C9 (as amended). \<open>resetEnemyDamageSystem\<close> restores the health fields:
  \<open>currentHealth = maxHealth\<close>, \<open>totalDamageDealt = 0\<close>, \<open>linesCompleted = 0\<close> and
  \<open>isDefeated = false\<close>, and it keeps \<open>lineCount\<close>. The locomotion module has no
  reset of its own; \<open>initEnemyMovement\<close> puts \<open>position.x\<close> at \<open>initialPosition\<close>
  and \<open>position.y\<close> at \<open>initialPositionY\<close> and records \<open>originalScale\<close> and
  \<open>originalY\<close> anew, and it leaves \<open>direction\<close>, \<open>isCrouching\<close>, \<open>crouchTimer\<close>,
  \<open>isPaused\<close> and \<open>pauseTimer\<close> as they were.
\<close>

theorem reset_restores_health_only:
  "currentHealth (resetEnemyDamageSystem s) = maxHealth \<and>
   totalDamageDealt (resetEnemyDamageSystem s) = 0 \<and>
   linesCompleted (resetEnemyDamageSystem s) = 0 \<and>
   isDefeated (resetEnemyDamageSystem s) = False \<and>
   lineCount (resetEnemyDamageSystem s) = lineCount s \<and>
   vec_x (position (enemy (initEnemyMovement cfg True w))) = initialPosition cfg \<and>
   vec_y (position (enemy (initEnemyMovement cfg True w))) = initialPositionY cfg \<and>
   originalScale (state (initEnemyMovement cfg True w)) = scale_y (enemy w) \<and>
   originalY (state (initEnemyMovement cfg True w)) = initialPositionY cfg \<and>
   direction (state (initEnemyMovement cfg True w)) = direction (state w) \<and>
   isCrouching (state (initEnemyMovement cfg True w)) = isCrouching (state w) \<and>
   crouchTimer (state (initEnemyMovement cfg True w)) = crouchTimer (state w) \<and>
   isPaused (state (initEnemyMovement cfg True w)) = isPaused (state w) \<and>
   pauseTimer (state (initEnemyMovement cfg True w)) = pauseTimer (state w)"
  by (simp add: resetEnemyDamageSystem_def initEnemyMovement_def Let_def setEnemyX_def
        setEnemyY_def)

end
